theory Spec2Isabelle
  imports Main "HOL-Library.Finite_Map" "HOL-Library.Multiset"
begin

section \<open>Data model\<close>

text \<open>
  The repository holds two fetcher programs: \<^verbatim>\<open>main.go\<close>, a sequential loop over the
  catalog, and a second \<^verbatim>\<open>package main\<close> (here called the pool program) whose
  \<^verbatim>\<open>fetchOne\<close> is run by sixteen workers. Both share the types below.
  A Go string field with value \<^verbatim>\<open>""\<close> is the absent value of the field.
\<close>

record MetadataEntry =
  LastModified :: string
  ETag :: string

type_synonym Metadata = "(string, MetadataEntry) fmap"

text \<open>The catalog, as the list of its (directory, URLs) pairs in the order in which the
  \<^verbatim>\<open>range\<close> over the Go map happens to visit them.\<close>

type_synonym DataSources = "(string \<times> string list) list"

definition MetadataEntry_zero :: MetadataEntry where
  "MetadataEntry_zero = \<lparr>LastModified = [], ETag = []\<rparr>"

text \<open>\<^verbatim>\<open>metadata[url]\<close>: indexing a Go map at a missing key yields the zero value.\<close>

definition Metadata_get :: "Metadata \<Rightarrow> string \<Rightarrow> MetadataEntry" where
  "Metadata_get m u = (case fmlookup m u of None \<Rightarrow> MetadataEntry_zero | Some e \<Rightarrow> e)"

section \<open>Library functions used by the programs\<close>

subsection \<open>Decimal numbers and the date stamp\<close>

definition digit_char :: "nat \<Rightarrow> char" where
  "digit_char d = char_of (48 + d)"

fun itoa :: "nat \<Rightarrow> string" where
  "itoa n = (if n < 10 then [digit_char n] else itoa (n div 10) @ [digit_char (n mod 10)])"

declare itoa.simps [simp del]

text \<open>Zero padding to a minimal width, as \<^verbatim>\<open>time.Format\<close> pads the fields of a layout.\<close>

definition pad :: "nat \<Rightarrow> nat \<Rightarrow> string" where
  "pad w n = replicate (w - length (itoa n)) (CHR ''0'') @ itoa n"

record civil =
  year :: nat
  month :: nat
  day :: nat

text \<open>\<^verbatim>\<open>time.Now().Format(dateFormat)\<close> with \<^verbatim>\<open>dateFormat = "2006-01-02"\<close>, applied to
  the civil date of the clock.\<close>

definition Format_date :: "civil \<Rightarrow> string" where
  "Format_date d = pad 4 (year d) @ ''-'' @ pad 2 (month d) @ ''-'' @ pad 2 (day d)"

subsection \<open>Strings and paths\<close>

definition HasSuffix :: "string \<Rightarrow> string \<Rightarrow> bool" where
  "HasSuffix s suffix \<longleftrightarrow>
     length suffix \<le> length s \<and> drop (length s - length suffix) s = suffix"

definition TrimSuffix :: "string \<Rightarrow> string \<Rightarrow> string" where
  "TrimSuffix s suffix = (if HasSuffix s suffix then take (length s - length suffix) s else s)"

definition is_sep :: "char \<Rightarrow> bool" where
  "is_sep c \<longleftrightarrow> c = CHR ''/''"

text \<open>\<^verbatim>\<open>filepath.Base\<close> on a Unix system: the empty path gives \<^verbatim>\<open>"."\<close>, trailing
  separators are stripped, the text after the last separator is returned, and a path of
  separators only gives \<^verbatim>\<open>"/"\<close>.\<close>

definition Base :: "string \<Rightarrow> string" where
  "Base path =
     (if path = [] then ''.''
      else let p = rev (dropWhile is_sep (rev path));
               e = rev (takeWhile (\<lambda>c. \<not> is_sep c) (rev p))
           in if e = [] then ''/'' else e)"

text \<open>\<^verbatim>\<open>strings.Split(path, "/")\<close>.\<close>

fun split_path :: "string \<Rightarrow> string list" where
  "split_path [] = [[]]"
| "split_path (c # cs) =
     (if is_sep c then [] # split_path cs
      else (case split_path cs of [] \<Rightarrow> [[c]] | x # xs \<Rightarrow> (c # x) # xs))"

fun join_path :: "string list \<Rightarrow> string" where
  "join_path [] = []"
| "join_path [x] = x"
| "join_path (x # y # ys) = x @ ''/'' @ join_path (y # ys)"

text \<open>One path element meets the elements kept so far, in \<^verbatim>\<open>filepath.Clean\<close>: a
  \<^verbatim>\<open>..\<close> removes the element before it, is dropped at the root, and is kept at the
  start of a relative path.\<close>

definition clean_step :: "bool \<Rightarrow> string list \<Rightarrow> string \<Rightarrow> string list" where
  "clean_step rooted kept c =
     (if c = ''..'' then
        (if kept \<noteq> [] \<and> last kept \<noteq> ''..'' then butlast kept
         else if rooted then kept
         else kept @ [c])
      else kept @ [c])"

definition clean_elems :: "string \<Rightarrow> string list" where
  "clean_elems path = filter (\<lambda>c. c \<noteq> [] \<and> c \<noteq> ''.'') (split_path path)"

definition is_rooted :: "string \<Rightarrow> bool" where
  "is_rooted path \<longleftrightarrow> (case path of [] \<Rightarrow> False | c # _ \<Rightarrow> is_sep c)"

text \<open>\<^verbatim>\<open>filepath.Clean\<close> on a Unix system, by the four rules of its documentation:
  separators are merged, \<^verbatim>\<open>.\<close> elements are dropped, inner \<^verbatim>\<open>..\<close> elements cancel
  the element before them, \<^verbatim>\<open>..\<close> at the root is dropped; the empty result is
  \<^verbatim>\<open>"."\<close>.\<close>

definition Clean :: "string \<Rightarrow> string" where
  "Clean path =
     (let kept = foldl (clean_step (is_rooted path)) [] (clean_elems path) in
      if is_rooted path then ''/'' @ join_path kept
      else if kept = [] then ''.''
      else join_path kept)"

text \<open>\<^verbatim>\<open>filepath.Join(dir, name)\<close>: empty elements are ignored, the rest is joined with
  the separator and cleaned.\<close>

definition Join :: "string \<Rightarrow> string \<Rightarrow> string" where
  "Join dir name =
     (if dir \<noteq> [] then Clean (dir @ ''/'' @ name)
      else if name \<noteq> [] then Clean name
      else [])"

text \<open>\<^verbatim>\<open>joinPath\<close> of package \<^verbatim>\<open>os\<close>, which places the temporary file in its
  directory without cleaning the path.\<close>

definition joinPath :: "string \<Rightarrow> string \<Rightarrow> string" where
  "joinPath dir name = (if dir \<noteq> [] \<and> is_sep (last dir) then dir @ name else dir @ ''/'' @ name)"

subsection \<open>HTTP messages\<close>

text \<open>A header maps a field name to its values. Names are taken up to the canonical
  form of MIME header keys, so a name is written here as the source writes it.\<close>

type_synonym Header = "string \<rightharpoonup> string list"

definition Header_Get :: "Header \<Rightarrow> string \<Rightarrow> string" where
  "Header_Get h k = (case h k of None \<Rightarrow> [] | Some [] \<Rightarrow> [] | Some (v # _) \<Rightarrow> v)"

definition Header_Set :: "Header \<Rightarrow> string \<Rightarrow> string \<Rightarrow> Header" where
  "Header_Set h k v = h(k \<mapsto> [v])"

record Request =
  req_Method :: string
  req_URL :: string
  req_Header :: Header

text \<open>A response: \<open>Body\<close> is what the body stream delivers, \<open>Body_fails\<close> says whether
  the stream then ends with a read error instead of the end of the data.\<close>

record Response =
  StatusCode :: nat
  resp_Header :: Header
  Body :: string
  Body_fails :: bool

datatype error =
  ErrNewRequest | ErrTransport | ErrStatus nat | ErrCreateTemp | ErrCopy | ErrRename

subsection \<open>Files, the environment of one task, and the state\<close>

text \<open>A file: its bytes and its modification time, in seconds since the Unix epoch, as
  all times here.\<close>

record osfile =
  content :: string
  mtime :: int

type_synonym fs = "string \<rightharpoonup> osfile"

text \<open>What the world outside the program does while one task runs: whether the URL can
  be made into a request, what the server answers to the \<open>k\<close>-th call of
  \<^verbatim>\<open>http.DefaultClient.Do\<close> of the task, the library function \<^verbatim>\<open>http.ParseTime\<close>,
  the random numbers and failures met by \<^verbatim>\<open>os.CreateTemp\<close>, after how many bytes a
  write to the temporary file fails (if it does), whether the rename fails, and the clock.\<close>

record env =
  NewRequest_fails :: bool
  Do_result :: "nat \<Rightarrow> Request \<Rightarrow> Response option"
  ParseTime :: "string \<Rightarrow> int option"
  TempDir :: string
  nextRandom :: "nat \<Rightarrow> nat"
  OpenFile_fails :: bool
  Write_fails :: "nat option"
  Rename_fails :: bool
  Now :: int

datatype event =
    EvGet Request
  | EvCreateTemp string
  | EvCopy string
  | EvRemove string
  | EvRename string string
  | EvChtimes string int
  | EvSet string MetadataEntry

text \<open>The state a task works on: the shared metadata map, the files, and the log of the
  effects performed so far. The Go map may be the nil map, which \<^verbatim>\<open>readMetadata\<close>
  returns for a null document: it reads like the empty map (\<open>nil_map\<close> then goes with an
  empty \<open>metadata\<close>), and an assignment to one of its entries is a run-time panic, after
  which \<open>panicked\<close> holds and the process is over.\<close>

record state =
  metadata :: Metadata
  nil_map :: bool
  panicked :: bool
  files :: fs
  trace :: "event list"

definition NewRequest :: "env \<Rightarrow> string \<Rightarrow> string \<Rightarrow> error + Request" where
  "NewRequest e m u =
     (if NewRequest_fails e then Inl ErrNewRequest
      else Inr \<lparr>req_Method = m, req_URL = u, req_Header = Map.empty\<rparr>)"

definition Do :: "env \<Rightarrow> nat \<Rightarrow> Request \<Rightarrow> state \<Rightarrow> (error + Response) \<times> state" where
  "Do e k req s =
     ((case Do_result e k req of None \<Rightarrow> Inl ErrTransport | Some r \<Rightarrow> Inr r),
      s\<lparr>trace := trace s @ [EvGet req]\<rparr>)"

text \<open>The loop of \<^verbatim>\<open>os.CreateTemp\<close>: a name that exists is tried again with a new
  random number, at most 10000 times.\<close>

function CreateTemp_try :: "fs \<Rightarrow> string \<Rightarrow> (nat \<Rightarrow> nat) \<Rightarrow> nat \<Rightarrow> string option" where
  "CreateTemp_try f prefix rnd try =
     (let name = prefix @ itoa (rnd try) in
      if f name \<noteq> None then
        (if try + 1 < 10000 then CreateTemp_try f prefix rnd (try + 1) else None)
      else Some name)"
  by pat_completeness auto
termination
  by (relation "measure (\<lambda>(f, prefix, rnd, try). 10000 - try)") auto

declare CreateTemp_try.simps [simp del]

text \<open>The name that \<^verbatim>\<open>os.CreateTemp(dir, pattern)\<close> finds for a pattern without
  \<^verbatim>\<open>*\<close>, if it finds one; an empty \<open>dir\<close> stands for the default directory.\<close>

definition CreateTemp_name :: "env \<Rightarrow> string \<Rightarrow> string \<Rightarrow> fs \<Rightarrow> string option" where
  "CreateTemp_name e dir pattern f =
     (if OpenFile_fails e then None
      else CreateTemp_try f (joinPath (if dir = [] then TempDir e else dir) pattern)
             (nextRandom e) 0)"

definition CreateTemp :: "env \<Rightarrow> string \<Rightarrow> string \<Rightarrow> state \<Rightarrow> (error + string) \<times> state" where
  "CreateTemp e dir pattern s =
     (case CreateTemp_name e dir pattern (files s) of
        None \<Rightarrow> (Inl ErrCreateTemp, s)
      | Some name \<Rightarrow>
          (Inr name,
           s\<lparr>files := (files s)(name \<mapsto> \<lparr>content = [], mtime = Now e\<rparr>),
             trace := trace s @ [EvCreateTemp name]\<rparr>))"

text \<open>\<^verbatim>\<open>io.Copy(tmpFile, resp.Body)\<close> followed by \<^verbatim>\<open>tmpFile.Close()\<close>: the bytes
  written before a failure stay in the file.\<close>

definition Copy :: "env \<Rightarrow> string \<Rightarrow> Response \<Rightarrow> state \<Rightarrow> error option \<times> state" where
  "Copy e name resp s =
     (let written = (case Write_fails e of None \<Rightarrow> Body resp | Some n \<Rightarrow> take n (Body resp))
      in (if Write_fails e \<noteq> None \<or> Body_fails resp then Some ErrCopy else None,
          s\<lparr>files := (files s)(name \<mapsto> \<lparr>content = written, mtime = Now e\<rparr>),
            trace := trace s @ [EvCopy name]\<rparr>))"

text \<open>\<^verbatim>\<open>os.Remove\<close>, whose error both programs ignore: removing a name that does not
  exist changes nothing.\<close>

definition Remove :: "string \<Rightarrow> state \<Rightarrow> state" where
  "Remove name s =
     (if files s name = None then s
      else s\<lparr>files := (files s)(name := None), trace := trace s @ [EvRemove name]\<rparr>)"

definition Rename :: "env \<Rightarrow> string \<Rightarrow> string \<Rightarrow> state \<Rightarrow> error option \<times> state" where
  "Rename e old new s =
     (if Rename_fails e \<or> files s old = None then (Some ErrRename, s)
      else (None,
            s\<lparr>files := (if old = new then files s
                         else ((files s)(old := None))(new := files s old)),
              trace := trace s @ [EvRename old new]\<rparr>))"

text \<open>The zero \<^verbatim>\<open>time.Time\<close>, the first second of the year 1, and
  \<^verbatim>\<open>Time.UnixNano\<close> on a time of whole seconds: the nanoseconds wrap around in 64
  bits.\<close>

definition zero_time :: int where
  "zero_time = - 62135596800"

definition UnixNano :: "int \<Rightarrow> int" where
  "UnixNano t = (t * 1000000000 + 2 ^ 63) mod 2 ^ 64 - 2 ^ 63"

text \<open>The modification time that \<^verbatim>\<open>os.Chtimes\<close> hands to the system for \<open>t\<close>: none
  for the zero time (the time of the file is left as it is), else the seconds of
  \<^verbatim>\<open>syscall.NsecToTimespec(t.UnixNano())\<close>.\<close>

definition Chtimes_mtime :: "int \<Rightarrow> int option" where
  "Chtimes_mtime t = (if t = zero_time then None else Some (UnixNano t div 1000000000))"

text \<open>\<^verbatim>\<open>os.Chtimes(name, time.Now(), t)\<close>, whose error both programs ignore; only the
  modification time is kept in the model.\<close>

definition Chtimes :: "string \<Rightarrow> int \<Rightarrow> state \<Rightarrow> state" where
  "Chtimes name t s =
     (case files s name of
        None \<Rightarrow> s\<lparr>trace := trace s @ [EvChtimes name t]\<rparr>
      | Some f \<Rightarrow>
          (case Chtimes_mtime t of
             None \<Rightarrow> s\<lparr>trace := trace s @ [EvChtimes name t]\<rparr>
           | Some t' \<Rightarrow> s\<lparr>files := (files s)(name \<mapsto> f\<lparr>mtime := t'\<rparr>),
                          trace := trace s @ [EvChtimes name t]\<rparr>))"

text \<open>\<^verbatim>\<open>metadata[url] = m\<close>, which panics on the nil map: nothing is written then.\<close>

definition Metadata_set :: "string \<Rightarrow> MetadataEntry \<Rightarrow> state \<Rightarrow> state" where
  "Metadata_set u m s =
     (if nil_map s then s\<lparr>panicked := True\<rparr>
      else s\<lparr>metadata := fmupd u m (metadata s), trace := trace s @ [EvSet u m]\<rparr>)"

section \<open>The parts both programs share\<close>

text \<open>The conditional headers (\<^verbatim>\<open>main.go\<close> lines 69 to 74, pool program lines 109 to 114).\<close>

definition set_conditional :: "MetadataEntry \<Rightarrow> Request \<Rightarrow> Request" where
  "set_conditional meta req0 =
     (let req1 = (if LastModified meta \<noteq> []
                  then req0\<lparr>req_Header :=
                         Header_Set (req_Header req0) ''If-Modified-Since'' (LastModified meta)\<rparr>
                  else req0)
      in if ETag meta \<noteq> []
         then req1\<lparr>req_Header := Header_Set (req_Header req1) ''If-None-Match'' (ETag meta)\<rparr>
         else req1)"

text \<open>The destination (\<^verbatim>\<open>main.go\<close> lines 104 and 105, pool program lines 130 and 131).\<close>

definition outPath :: "string \<Rightarrow> string \<Rightarrow> string \<Rightarrow> string" where
  "outPath dir url today = Join dir (TrimSuffix (Base url) ''.csv'' @ ''-'' @ today @ ''.csv'')"

text \<open>Recording the response headers into an entry \<open>m0\<close> (\<^verbatim>\<open>main.go\<close> lines 131 to 139
  with \<open>m0\<close> the prior entry, pool program lines 152 to 160 with \<open>m0\<close> the zero entry).\<close>

definition record_headers ::
  "env \<Rightarrow> string \<Rightarrow> Response \<Rightarrow> MetadataEntry \<Rightarrow> state \<Rightarrow> MetadataEntry \<times> state" where
  "record_headers e out resp m0 s =
     (let lm = Header_Get (resp_Header resp) ''Last-Modified'';
          (m1, s1) = (if lm \<noteq> [] then
                        (case ParseTime e lm of
                           Some t \<Rightarrow> (m0\<lparr>LastModified := lm\<rparr>, Chtimes out t s)
                         | None \<Rightarrow> (m0, s))
                      else (m0, s));
          etag = Header_Get (resp_Header resp) ''ETag''
      in (if etag \<noteq> [] then m1\<lparr>ETag := etag\<rparr> else m1, s1))"

section \<open>The pool program: \<^verbatim>\<open>fetchOne\<close>\<close>

text \<open>\<^verbatim>\<open>fetchOne\<close> after its locked read of \<^verbatim>\<open>metadata[url]\<close>, which gave \<open>meta\<close>.
  The deferred \<^verbatim>\<open>os.Remove\<close> runs on every return after the temporary file exists.\<close>

definition fetchOne_body ::
  "env \<Rightarrow> string \<Rightarrow> string \<Rightarrow> string \<Rightarrow> MetadataEntry \<Rightarrow> state \<Rightarrow> error option \<times> state" where
  "fetchOne_body e dir url today meta s =
     (case NewRequest e ''GET'' url of
        Inl err \<Rightarrow> (Some err, s)
      | Inr req0 \<Rightarrow>
          (case Do e 0 (set_conditional meta req0) s of
             (Inl err, s1) \<Rightarrow> (Some err, s1)
           | (Inr resp, s1) \<Rightarrow>
               if StatusCode resp = 304 then (None, s1)
               else if StatusCode resp \<noteq> 200 then (Some (ErrStatus (StatusCode resp)), s1)
               else
                 (case CreateTemp e dir ''tmp'' s1 of
                    (Inl err, s2) \<Rightarrow> (Some err, s2)
                  | (Inr tmp, s2) \<Rightarrow>
                      (case Copy e tmp resp s2 of
                         (Some err, s3) \<Rightarrow> (Some err, Remove tmp s3)
                       | (None, s3) \<Rightarrow>
                           (case Rename e tmp (outPath dir url today) s3 of
                              (Some err, s4) \<Rightarrow> (Some err, Remove tmp s4)
                            | (None, s4) \<Rightarrow>
                                (let (newMeta, s5) =
                                       record_headers e (outPath dir url today) resp
                                         MetadataEntry_zero s4
                                 in (None, Remove tmp (Metadata_set url newMeta s5))))))))"

definition fetchOne ::
  "env \<Rightarrow> string \<Rightarrow> string \<Rightarrow> string \<Rightarrow> state \<Rightarrow> error option \<times> state" where
  "fetchOne e dir url today s =
     fetchOne_body e dir url today (Metadata_get (metadata s) url) s"

section \<open>The sequential program: the loop body of \<^verbatim>\<open>main.go\<close>\<close>

text \<open>One pass of the inner loop of \<^verbatim>\<open>main.go\<close> (lines 59 to 140) on the flag
  \<^verbatim>\<open>hadError\<close> and the state. After a first response of status 200 the body is closed
  and the same request is sent again; the second response is the one that is stored.\<close>

definition main_loop_body ::
  "env \<Rightarrow> string \<Rightarrow> string \<Rightarrow> string \<Rightarrow> bool \<times> state \<Rightarrow> bool \<times> state" where
  "main_loop_body e dir url today hs =
     (let hadError = fst hs; s = snd hs; meta = Metadata_get (metadata s) url in
      case NewRequest e ''GET'' url of
        Inl err \<Rightarrow> (True, s)
      | Inr req0 \<Rightarrow>
          (case Do e 0 (set_conditional meta req0) s of
             (Inl err, s1) \<Rightarrow> (True, s1)
           | (Inr resp0, s1) \<Rightarrow>
               if StatusCode resp0 = 304 then (hadError, s1)
               else if StatusCode resp0 \<noteq> 200 then (True, s1)
               else
                 (case Do e 1 (set_conditional meta req0) s1 of
                    (Inl err, s2) \<Rightarrow> (True, s2)
                  | (Inr resp, s2) \<Rightarrow>
                      (case CreateTemp e dir ''tmp'' s2 of
                         (Inl err, s3) \<Rightarrow> (True, s3)
                       | (Inr tmp, s3) \<Rightarrow>
                           (case Copy e tmp resp s3 of
                              (Some err, s4) \<Rightarrow> (True, Remove tmp s4)
                            | (None, s4) \<Rightarrow>
                                (case Rename e tmp (outPath dir url today) s4 of
                                   (Some err, s5) \<Rightarrow> (True, s5)
                                 | (None, s5) \<Rightarrow>
                                     (let (meta', s6) =
                                            record_headers e (outPath dir url today) resp meta s5
                                      in (hadError, Metadata_set url meta' s6))))))))"

section \<open>Notions used in the statements\<close>

text \<open>The events that a step from \<open>s\<close> to \<open>s'\<close> has added to the log.\<close>

definition new_events :: "state \<Rightarrow> state \<Rightarrow> event list" where
  "new_events s s' = drop (length (trace s)) (trace s')"

text \<open>The requests handed to \<^verbatim>\<open>http.DefaultClient.Do\<close>, in order.\<close>

fun requests :: "event list \<Rightarrow> Request list" where
  "requests [] = []"
| "requests (EvGet r # evs) = r # requests evs"
| "requests (ev # evs) = requests evs"

text \<open>The request of a task with prior entry \<open>meta\<close>.\<close>

definition request_for :: "MetadataEntry \<Rightarrow> string \<Rightarrow> Request" where
  "request_for meta url =
     set_conditional meta \<lparr>req_Method = ''GET'', req_URL = url, req_Header = Map.empty\<rparr>"

text \<open>The modification time that a response offers: its \<^verbatim>\<open>Last-Modified\<close> header,
  when there is one and \<^verbatim>\<open>http.ParseTime\<close> accepts it.\<close>

definition mtime_hint :: "env \<Rightarrow> Response \<Rightarrow> int option" where
  "mtime_hint e resp =
     (let lm = Header_Get (resp_Header resp) ''Last-Modified''
      in if lm = [] then None else ParseTime e lm)"

text \<open>An entry \<open>m0\<close> with each field overwritten by the header of the response that
  belongs to it: \<^verbatim>\<open>Last-Modified\<close> when it offers a modification time, \<^verbatim>\<open>ETag\<close>
  when it is not empty.\<close>

definition overwritten :: "env \<Rightarrow> Response \<Rightarrow> MetadataEntry \<Rightarrow> MetadataEntry" where
  "overwritten e resp m0 =
     \<lparr>LastModified = (if mtime_hint e resp = None then LastModified m0
                       else Header_Get (resp_Header resp) ''Last-Modified''),
      ETag = (if Header_Get (resp_Header resp) ''ETag'' = [] then ETag m0
              else Header_Get (resp_Header resp) ''ETag'')\<rparr>"

text \<open>The file operations of a task all go well: a temporary name is found, the body is
  read and written in full, and the rename is not refused.\<close>

definition files_go_well :: "env \<Rightarrow> string \<Rightarrow> Response \<Rightarrow> fs \<Rightarrow> bool" where
  "files_go_well e dir resp f \<longleftrightarrow>
     CreateTemp_name e dir ''tmp'' f \<noteq> None \<and> Write_fails e = None \<and> \<not> Body_fails resp \<and>
     \<not> Rename_fails e"

text \<open>The effects of a task that stores a download, after the requests \<open>reqs\<close>, and the
  file it leaves at the destination.\<close>

definition stored_events ::
  "env \<Rightarrow> Request list \<Rightarrow> string \<Rightarrow> string \<Rightarrow> string \<Rightarrow> Response \<Rightarrow> MetadataEntry \<Rightarrow>
   event list" where
  "stored_events e reqs tmp out url resp m =
     map EvGet reqs @ [EvCreateTemp tmp, EvCopy tmp, EvRename tmp out] @
     (case mtime_hint e resp of None \<Rightarrow> [] | Some t \<Rightarrow> [EvChtimes out t]) @ [EvSet url m]"

definition stored_file :: "env \<Rightarrow> Response \<Rightarrow> osfile" where
  "stored_file e resp =
     \<lparr>content = Body resp,
      mtime = (case mtime_hint e resp of
                 None \<Rightarrow> Now e
               | Some t \<Rightarrow> (case Chtimes_mtime t of None \<Rightarrow> Now e | Some t' \<Rightarrow> t'))\<rparr>"

text \<open>The entries written to the store, in order.\<close>

fun stores :: "event list \<Rightarrow> (string \<times> MetadataEntry) list" where
  "stores [] = []"
| "stores (EvSet u m # evs) = (u, m) # stores evs"
| "stores (ev # evs) = stores evs"

text \<open>Every write to the store in a list of events is for \<open>url\<close> and comes after a rename
  onto \<open>out\<close> in that list (\<open>renamed\<close> says whether one has been seen).\<close>

fun stores_after :: "bool \<Rightarrow> string \<Rightarrow> string \<Rightarrow> event list \<Rightarrow> bool" where
  "stores_after renamed url out [] = True"
| "stores_after renamed url out (EvRename a b # evs) =
     stores_after (renamed \<or> b = out) url out evs"
| "stores_after renamed url out (EvSet u m # evs) =
     (renamed \<and> u = url \<and> stores_after renamed url out evs)"
| "stores_after renamed url out (ev # evs) = stores_after renamed url out evs"

text \<open>A store after a list of writes.\<close>

definition apply_stores :: "Metadata \<Rightarrow> (string \<times> MetadataEntry) list \<Rightarrow> Metadata" where
  "apply_stores m ws = foldl (\<lambda>m' w. fmupd (fst w) (snd w) m') m ws"

text \<open>The calls of \<^verbatim>\<open>os.Chtimes\<close>, in order.\<close>

fun chtimes :: "event list \<Rightarrow> (string \<times> int) list" where
  "chtimes [] = []"
| "chtimes (EvChtimes a t # evs) = (a, t) # chtimes evs"
| "chtimes (ev # evs) = chtimes evs"



section \<open>Example data\<close>

text \<open>A state without files and entries, a response with given status and headers, and a
  world in which every call succeeds and the server always gives the same response.\<close>

definition example_state :: state where
  "example_state =
     \<lparr>metadata = fmempty, nil_map = False, panicked = False, files = Map.empty, trace = []\<rparr>"

definition example_response :: "nat \<Rightarrow> (string \<times> string) list \<Rightarrow> Response" where
  "example_response code hs =
     \<lparr>StatusCode = code, resp_Header = map_of (map (\<lambda>(k, v). (k, [v])) hs),
      Body = ''a,b'', Body_fails = False\<rparr>"

definition example_env :: "Response \<Rightarrow> env" where
  "example_env resp =
     \<lparr>NewRequest_fails = False,
      Do_result = (\<lambda>k r. Some resp),
      ParseTime = (\<lambda>v. if v = ''Sun, 01 Jun 2025 00:00:00 GMT'' then Some 1748736000
                       else if v = ''Sat, 31 May 2025 00:00:00 GMT'' then Some 1748649600
                       else None),
      TempDir = ''/tmp'',
      nextRandom = (\<lambda>k. 42 + k),
      OpenFile_fails = False,
      Write_fails = None,
      Rename_fails = False,
      Now = 1750000000\<rparr>"

definition example_entry :: MetadataEntry where
  "example_entry = \<lparr>LastModified = ''Sat, 31 May 2025 00:00:00 GMT'', ETag = ''v0''\<rparr>"

definition example_state_with :: "string \<Rightarrow> MetadataEntry \<Rightarrow> state" where
  "example_state_with u m =
     \<lparr>metadata = fmupd u m fmempty, nil_map = False, panicked = False, files = Map.empty,
      trace = []\<rparr>"

definition example_url :: string where
  "example_url = ''http://x/data.csv''"

definition example_date :: civil where
  "example_date = \<lparr>year = 2025, month = 6, day = 1\<rparr>"

section \<open>The metadata file\<close>

text \<open>The metadata file is modelled at the level of YAML documents: a document is null,
  a scalar (given by its text), a sequence, or a mapping from keys to documents. The text
  that \<^verbatim>\<open>gopkg.in/yaml.v3\<close> writes for a document, and its parsing, are outside the
  model.\<close>

datatype yaml = YNull | YStr string | YSeq "yaml list" | YMap "(string, yaml) fmap"

text \<open>The struct tags \<^verbatim>\<open>yaml:"last_modified,omitempty"\<close> and \<^verbatim>\<open>yaml:"etag,omitempty"\<close>:
  an empty field is left out of the mapping.\<close>

definition encode_entry :: "MetadataEntry \<Rightarrow> yaml" where
  "encode_entry m =
     YMap ((if ETag m \<noteq> [] then fmupd ''etag'' (YStr (ETag m)) else id)
           ((if LastModified m \<noteq> [] then fmupd ''last_modified'' (YStr (LastModified m)) else id)
            fmempty))"

text \<open>The encoder writes a map, the nil map too, as a mapping.\<close>

definition encode_Metadata :: "Metadata \<Rightarrow> yaml" where
  "encode_Metadata m = YMap (fmmap encode_entry m)"

text \<open>Decoding a field of the struct: a key that is missing or has a null value leaves the
  zero value, a scalar gives its text, any other value is an error.\<close>

definition decode_field :: "(string, yaml) fmap \<Rightarrow> string \<Rightarrow> string option" where
  "decode_field f k =
     (case fmlookup f k of
        None \<Rightarrow> Some []
      | Some YNull \<Rightarrow> Some []
      | Some (YStr v) \<Rightarrow> Some v
      | Some (YSeq ys) \<Rightarrow> None
      | Some (YMap g) \<Rightarrow> None)"

text \<open>Decoding an entry: a null value gives the zero entry.\<close>

definition decode_entry :: "yaml \<Rightarrow> MetadataEntry option" where
  "decode_entry y =
     (case y of
        YNull \<Rightarrow> Some MetadataEntry_zero
      | YStr v \<Rightarrow> None
      | YSeq ys \<Rightarrow> None
      | YMap f \<Rightarrow>
          (case decode_field f ''last_modified'' of
             None \<Rightarrow> None
           | Some lm \<Rightarrow>
               (case decode_field f ''etag'' of
                  None \<Rightarrow> None
                | Some et \<Rightarrow> Some \<lparr>LastModified = lm, ETag = et\<rparr>)))"

text \<open>Decoding the document into \<^verbatim>\<open>var m Metadata\<close>: the result says whether \<open>m\<close> is
  left the nil map, which a null document does without an error.\<close>

definition decode_Metadata :: "yaml \<Rightarrow> (bool \<times> Metadata) option" where
  "decode_Metadata y =
     (case y of
        YNull \<Rightarrow> Some (True, fmempty)
      | YStr v \<Rightarrow> None
      | YSeq ys \<Rightarrow> None
      | YMap f \<Rightarrow>
          if fmpred (\<lambda>k v. decode_entry v \<noteq> None) f
          then Some (False, fmmap (\<lambda>v. the (decode_entry v)) f)
          else None)"

text \<open>A YAML file of the working directory holds a complete document, or was created and
  not yet written in full.\<close>

datatype docfile = Incomplete | Document yaml

type_synonym docs = "string \<rightharpoonup> docfile"

definition metadataFile :: string where
  "metadataFile = ''.metadata.yaml''"

text \<open>What the world outside does to one run of a program: the catalog that
  \<^verbatim>\<open>readDataSources\<close> returns (\<open>None\<close> when it ends the process), the failures of the
  calls on the metadata file, which directories cannot be created, the date, and the
  environment of the \<open>n\<close>-th task.\<close>

record run_env =
  readDataSources :: "DataSources option"
  Open_fails :: bool
  Create_fails :: bool
  Encode_fails :: bool
  Rename_metadata_fails :: bool
  MkdirAll_fails :: "string \<Rightarrow> bool"
  clock_date :: civil
  task_env :: "nat \<Rightarrow> env"

text \<open>\<^verbatim>\<open>readMetadata\<close>: \<open>None\<close> is \<^verbatim>\<open>log.Fatalf\<close>; the result says whether the map is
  the nil map, and gives its entries.\<close>

definition readMetadata :: "run_env \<Rightarrow> docs \<Rightarrow> (bool \<times> Metadata) option" where
  "readMetadata R d =
     (case d metadataFile of
        None \<Rightarrow> Some (False, fmempty)
      | Some f \<Rightarrow>
          if Open_fails R then None
          else (case f of Incomplete \<Rightarrow> None | Document y \<Rightarrow> decode_Metadata y))"

text \<open>\<^verbatim>\<open>writeMetadata\<close>: the flag of the result says whether the function returned
  (\<open>True\<close>) or ended the process with \<^verbatim>\<open>log.Fatalf\<close> (\<open>False\<close>).\<close>

definition writeMetadata :: "run_env \<Rightarrow> Metadata \<Rightarrow> docs \<Rightarrow> bool \<times> docs" where
  "writeMetadata R m d =
     (let tmp = metadataFile @ ''.tmp'' in
      if Create_fails R then (False, d)
      else if Encode_fails R then (False, d(tmp \<mapsto> Incomplete))
      else if Rename_metadata_fails R then (False, d(tmp \<mapsto> Document (encode_Metadata m)))
      else (True, (d(tmp := None))(metadataFile \<mapsto> Document (encode_Metadata m))))"


definition example_metadata :: Metadata where
  "example_metadata =
     fmupd ''http://x/a.csv'' \<lparr>LastModified = ''Sat, 31 May 2025 00:00:00 GMT'', ETag = ''v0''\<rparr>
      (fmupd ''http://x/b.csv'' \<lparr>LastModified = ''Sat, 31 May 2025 00:00:00 GMT'', ETag = []\<rparr>
        (fmupd ''http://x/c.csv'' \<lparr>LastModified = [], ETag = ''v0''\<rparr>
          (fmupd ''http://x/d.csv'' \<lparr>LastModified = [], ETag = []\<rparr> fmempty)))"

definition example_run :: "DataSources \<Rightarrow> Response \<Rightarrow> run_env" where
  "example_run dataSources resp =
     \<lparr>readDataSources = Some dataSources,
      Open_fails = False,
      Create_fails = False,
      Encode_fails = False,
      Rename_metadata_fails = False,
      MkdirAll_fails = (\<lambda>dir. False),
      clock_date = example_date,
      task_env = (\<lambda>n. example_env resp)\<rparr>"

section \<open>The runs\<close>

text \<open>How a process ends: its exit status, the YAML files and the state it leaves. A
  process that panics ends with status 2. The field \<open>results\<close> is a history variable for
  the statements below: the tasks that were completed, each with whether it failed.\<close>

record outcome =
  exit_status :: nat
  out_docs :: docs
  out_state :: state
  results :: "((string \<times> string) \<times> bool) list"

text \<open>The tasks of a catalog, in the order of the two loops.\<close>

definition catalog_tasks :: "DataSources \<Rightarrow> (string \<times> string) list" where
  "catalog_tasks dataSources = concat (map (\<lambda>(dir, urls). map (Pair dir) urls) dataSources)"

text \<open>No call on the metadata file fails when the store is written.\<close>

definition write_goes_well :: "run_env \<Rightarrow> bool" where
  "write_goes_well R \<longleftrightarrow> \<not> Create_fails R \<and> \<not> Encode_fails R \<and> \<not> Rename_metadata_fails R"

text \<open>Some directory of the catalog cannot be created.\<close>

definition mkdir_fails :: "run_env \<Rightarrow> DataSources \<Rightarrow> bool" where
  "mkdir_fails R dataSources = list_ex (\<lambda>x. MkdirAll_fails R (fst x)) dataSources"

text \<open>Some completed task has failed.\<close>

definition some_failed :: "((string \<times> string) \<times> bool) list \<Rightarrow> bool" where
  "some_failed rs = list_ex snd rs"

subsection \<open>\<^verbatim>\<open>main.go\<close>\<close>

record seq_run =
  seq_next :: nat
  seq_hadError :: bool
  seq_state :: state
  seq_results :: "((string \<times> string) \<times> bool) list"

text \<open>One URL of the inner loop. The history variable notes whether this pass is one that
  sets the flag; a pass that panics is not completed.\<close>

definition main_url :: "run_env \<Rightarrow> string \<Rightarrow> string \<Rightarrow> string \<Rightarrow> seq_run \<Rightarrow> seq_run" where
  "main_url R today dir url r =
     (let e = task_env R (seq_next r);
          hs = main_loop_body e dir url today (seq_hadError r, seq_state r)
      in \<lparr>seq_next = Suc (seq_next r),
          seq_hadError = fst hs,
          seq_state = snd hs,
          seq_results =
            (if panicked (snd hs) then seq_results r
             else seq_results r @
               [((dir, url), fst (main_loop_body e dir url today (False, seq_state r)))])\<rparr>)"

text \<open>The inner loop ends where a pass panics.\<close>

fun main_urls :: "run_env \<Rightarrow> string \<Rightarrow> string \<Rightarrow> string list \<Rightarrow> seq_run \<Rightarrow> seq_run" where
  "main_urls R today dir [] r = r"
| "main_urls R today dir (url # urls) r =
     (if panicked (seq_state (main_url R today dir url r)) then main_url R today dir url r
      else main_urls R today dir urls (main_url R today dir url r))"

text \<open>The outer loop; \<open>Inl\<close> is the end of the process in the loop: the \<^verbatim>\<open>log.Fatalf\<close> after
  a failed \<^verbatim>\<open>os.MkdirAll\<close>, or a panic.\<close>

fun main_dirs :: "run_env \<Rightarrow> string \<Rightarrow> DataSources \<Rightarrow> seq_run \<Rightarrow> seq_run + seq_run" where
  "main_dirs R today [] r = Inr r"
| "main_dirs R today ((dir, urls) # rest) r =
     (if MkdirAll_fails R dir then Inl r
      else if panicked (seq_state (main_urls R today dir urls r))
           then Inl (main_urls R today dir urls r)
           else main_dirs R today rest (main_urls R today dir urls r))"

definition exit_with :: "nat \<Rightarrow> docs \<Rightarrow> seq_run \<Rightarrow> outcome" where
  "exit_with c d r =
     \<lparr>exit_status = c, out_docs = d, out_state = seq_state r, results = seq_results r\<rparr>"

definition main :: "run_env \<Rightarrow> docs \<Rightarrow> fs \<Rightarrow> outcome" where
  "main R d f =
     (let today = Format_date (clock_date R);
          r0 = \<lparr>seq_next = 0, seq_hadError = False,
                seq_state = \<lparr>metadata = fmempty, nil_map = False, panicked = False,
                             files = f, trace = []\<rparr>,
                seq_results = []\<rparr>
      in case readDataSources R of
           None \<Rightarrow> exit_with 1 d r0
         | Some dataSources \<Rightarrow>
             (case readMetadata R d of
                None \<Rightarrow> exit_with 1 d r0
              | Some (nil, m) \<Rightarrow>
                  (case main_dirs R today dataSources
                          (r0\<lparr>seq_state := \<lparr>metadata = m, nil_map = nil, panicked = False,
                                              files = f, trace = []\<rparr>\<rparr>) of
                     Inl r \<Rightarrow> exit_with (if panicked (seq_state r) then 2 else 1) d r
                   | Inr r \<Rightarrow>
                       (case writeMetadata R (metadata (seq_state r)) d of
                          (False, d') \<Rightarrow> exit_with 1 d' r
                        | (True, d') \<Rightarrow> exit_with (if seq_hadError r then 1 else 0) d' r))))"

subsection \<open>The pool program\<close>

definition maxParallel :: nat where
  "maxParallel = 16"

text \<open>The state of the pool: the directories not yet dispatched, the directory whose URLs
  are being sent, the channel, the workers that have read their prior entry under the lock
  and are at work, the flag, and the shared state.\<close>

record pool =
  todo :: DataSources
  current :: "(string \<times> string list) option"
  tasks :: "(nat \<times> string \<times> string) list"
  working :: "((nat \<times> string \<times> string) \<times> MetadataEntry) list"
  next_task :: nat
  hadError :: bool
  shared :: state
  done_tasks :: "((string \<times> string) \<times> bool) list"

text \<open>The steps of the pool. A worker takes a task from the channel and reads
  \<^verbatim>\<open>metadata[url]\<close> under the lock (\<open>take\<close>); later it completes the rest of
  \<^verbatim>\<open>fetchOne\<close>, taken as one step, and sets the flag on an error (\<open>finish\<close>). A worker
  that panics ends the process: no step follows, and its task is not completed.\<close>

inductive pool_step :: "run_env \<Rightarrow> string \<Rightarrow> pool \<Rightarrow> pool \<Rightarrow> bool" for R today where
  mkdir: "\<not> panicked (shared p) \<Longrightarrow>
     current p = None \<Longrightarrow> todo p = (dir, urls) # rest \<Longrightarrow> \<not> MkdirAll_fails R dir \<Longrightarrow>
     pool_step R today p (p\<lparr>todo := rest, current := Some (dir, urls)\<rparr>)"
| send: "\<not> panicked (shared p) \<Longrightarrow>
     current p = Some (dir, url # urls) \<Longrightarrow> length (tasks p) < maxParallel \<Longrightarrow>
     pool_step R today p
       (p\<lparr>current := Some (dir, urls), tasks := tasks p @ [(next_task p, dir, url)],
          next_task := Suc (next_task p)\<rparr>)"
| sent: "\<not> panicked (shared p) \<Longrightarrow> current p = Some (dir, []) \<Longrightarrow>
     pool_step R today p (p\<lparr>current := None\<rparr>)"
| take: "\<not> panicked (shared p) \<Longrightarrow>
     tasks p = (n, dir, url) # ts \<Longrightarrow> length (working p) < maxParallel \<Longrightarrow>
     pool_step R today p
       (p\<lparr>tasks := ts,
          working := working p @ [((n, dir, url), Metadata_get (metadata (shared p)) url)]\<rparr>)"
| finish: "\<not> panicked (shared p) \<Longrightarrow>
     working p = ws @ ((n, dir, url), meta) # ws' \<Longrightarrow>
     fetchOne_body (task_env R n) dir url today meta (shared p) = (err, s') \<Longrightarrow>
     pool_step R today p
       (p\<lparr>working := ws @ ws', shared := s', hadError := (hadError p \<or> err \<noteq> None),
          done_tasks := (if panicked s' then done_tasks p
                         else done_tasks p @ [((dir, url), err \<noteq> None)])\<rparr>)"

text \<open>The tasks of a pool state that has not panicked, wherever they are: done, at work,
  in the channel, still to be sent, or in a directory not yet dispatched.\<close>

definition pool_tasks :: "pool \<Rightarrow> (string \<times> string) multiset" where
  "pool_tasks p =
     mset (map fst (done_tasks p)) + mset (map (\<lambda>w. snd (fst w)) (working p)) +
     mset (map snd (tasks p)) +
     (case current p of None \<Rightarrow> {#} | Some (dir, urls) \<Rightarrow> mset (map (Pair dir) urls)) +
     mset (catalog_tasks (todo p))"

definition pool_exit :: "nat \<Rightarrow> docs \<Rightarrow> pool \<Rightarrow> outcome" where
  "pool_exit c d p =
     \<lparr>exit_status = c, out_docs = d, out_state = shared p, results = done_tasks p\<rparr>"

definition pool_init :: "DataSources \<Rightarrow> bool \<times> Metadata \<Rightarrow> fs \<Rightarrow> pool" where
  "pool_init dataSources m f =
     \<lparr>todo = dataSources, current = None, tasks = [], working = [], next_task = 0,
      hadError = False,
      shared = \<lparr>metadata = snd m, nil_map = fst m, panicked = False, files = f, trace = []\<rparr>,
      done_tasks = []\<rparr>"

text \<open>The runs of the pool program: the process ends at the two reads, at a failed
  \<^verbatim>\<open>os.MkdirAll\<close> of the dispatch loop (whatever the workers have done by then), at the
  panic of a worker, or after the channel is closed and drained and all workers are back,
  with \<^verbatim>\<open>writeMetadata\<close> and the test of the flag.\<close>

inductive pool_main :: "run_env \<Rightarrow> docs \<Rightarrow> fs \<Rightarrow> outcome \<Rightarrow> bool" for R d f where
  no_catalog: "readDataSources R = None \<Longrightarrow>
     pool_main R d f (pool_exit 1 d (pool_init [] (False, fmempty) f))"
| no_metadata: "readDataSources R = Some dataSources \<Longrightarrow> readMetadata R d = None \<Longrightarrow>
     pool_main R d f (pool_exit 1 d (pool_init [] (False, fmempty) f))"
| mkdir_fatal: "readDataSources R = Some dataSources \<Longrightarrow> readMetadata R d = Some m \<Longrightarrow>
     (pool_step R (Format_date (clock_date R)))\<^sup>*\<^sup>* (pool_init dataSources m f) p \<Longrightarrow>
     \<not> panicked (shared p) \<Longrightarrow>
     current p = None \<Longrightarrow> todo p = (dir, urls) # rest \<Longrightarrow> MkdirAll_fails R dir \<Longrightarrow>
     pool_main R d f (pool_exit 1 d p)"
| panic: "readDataSources R = Some dataSources \<Longrightarrow> readMetadata R d = Some m \<Longrightarrow>
     (pool_step R (Format_date (clock_date R)))\<^sup>*\<^sup>* (pool_init dataSources m f) p \<Longrightarrow>
     panicked (shared p) \<Longrightarrow>
     pool_main R d f (pool_exit 2 d p)"
| write_fatal: "readDataSources R = Some dataSources \<Longrightarrow> readMetadata R d = Some m \<Longrightarrow>
     (pool_step R (Format_date (clock_date R)))\<^sup>*\<^sup>* (pool_init dataSources m f) p \<Longrightarrow>
     \<not> panicked (shared p) \<Longrightarrow>
     current p = None \<Longrightarrow> todo p = [] \<Longrightarrow> tasks p = [] \<Longrightarrow> working p = [] \<Longrightarrow>
     writeMetadata R (metadata (shared p)) d = (False, d') \<Longrightarrow>
     pool_main R d f (pool_exit 1 d' p)"
| finished: "readDataSources R = Some dataSources \<Longrightarrow> readMetadata R d = Some m \<Longrightarrow>
     (pool_step R (Format_date (clock_date R)))\<^sup>*\<^sup>* (pool_init dataSources m f) p \<Longrightarrow>
     \<not> panicked (shared p) \<Longrightarrow>
     current p = None \<Longrightarrow> todo p = [] \<Longrightarrow> tasks p = [] \<Longrightarrow> working p = [] \<Longrightarrow>
     writeMetadata R (metadata (shared p)) d = (True, d') \<Longrightarrow>
     pool_main R d f (pool_exit (if hadError p then 1 else 0) d' p)"

text \<open>A run meets a call whose failure ends the process with \<^verbatim>\<open>log.Fatalf\<close>.\<close>

definition fatal :: "run_env \<Rightarrow> docs \<Rightarrow> bool" where
  "fatal R d =
     (case readDataSources R of
        None \<Rightarrow> True
      | Some dataSources \<Rightarrow>
          readMetadata R d = None \<or> mkdir_fails R dataSources \<or> \<not> write_goes_well R)"

text \<open>Example runs: a catalog of one directory with one URL, and the state in which the
  pool ends when the server answers 304.\<close>

definition example_catalog :: DataSources where
  "example_catalog = [(''stationA'', [example_url])]"

definition example_pool_final :: pool where
  "example_pool_final =
     \<lparr>todo = [], current = None, tasks = [], working = [], next_task = 1, hadError = False,
      shared = \<lparr>metadata = fmempty, nil_map = False, panicked = False, files = Map.empty,
                trace = [EvGet (request_for MetadataEntry_zero example_url)]\<rparr>,
      done_tasks = [((''stationA'', example_url), False)]\<rparr>"

lemma itoa_last: "itoa n \<noteq> [] \<and> last (itoa n) = digit_char (n mod 10)"
  by (subst itoa.simps, subst (2) itoa.simps) auto

lemma of_char_digit_char: "d < 10 \<Longrightarrow> (of_char (digit_char d) :: nat) = 48 + d"
  by (simp add: digit_char_def)

lemma digit_char_neq:
  assumes "d < 10" and "(of_char c :: nat) < 48 \<or> 57 < (of_char c :: nat)"
  shows "digit_char d \<noteq> c"
proof
  assume "digit_char d = c"
  then have "(of_char c :: nat) = 48 + d"
    using of_char_digit_char[OF assms(1)] by simp
  with assms show False by linarith
qed

lemma digit_char_not_v: "digit_char (n mod 10) \<noteq> CHR ''v''"
proof -
  have "n mod 10 < 10" by (rule mod_less_divisor) simp
  then show ?thesis by (rule digit_char_neq) simp
qed

lemma digit_char_not_sep: "d < 10 \<Longrightarrow> digit_char d \<noteq> CHR ''/''"
  by (rule digit_char_neq) simp_all

lemma itoa_no_sep: "CHR ''/'' \<notin> set (itoa n)"
proof (induction n rule: itoa.induct)
  case (1 n)
  show ?case
  proof (cases "n < 10")
    case True
    then show ?thesis using digit_char_not_sep[of n] by (subst itoa.simps) auto
  next
    case False
    have "n mod 10 < 10" by simp
    then have "digit_char (n mod 10) \<noteq> CHR ''/''" by (rule digit_char_not_sep)
    with False 1 show ?thesis by (subst itoa.simps) auto
  qed
qed

lemma pad_no_sep: "CHR ''/'' \<notin> set (pad w n)"
  by (simp add: pad_def itoa_no_sep)

lemma Format_date_no_sep: "CHR ''/'' \<notin> set (Format_date d)"
  by (simp add: Format_date_def pad_no_sep)

lemma split_path_nonempty: "split_path xs \<noteq> []"
  by (induction xs) (auto split: list.splits)


lemma split_path_nosep: "CHR ''/'' \<notin> set ys \<Longrightarrow> split_path ys = [ys]"
  by (induction ys) (auto simp: is_sep_def)

lemma split_path_append_nosep:
  "CHR ''/'' \<notin> set ys \<Longrightarrow> split_path (xs @ ys) = butlast (split_path xs) @ [last (split_path xs) @ ys]"
  by (induction xs) (auto simp: is_sep_def split_path_nosep split_path_nonempty split: list.splits)

lemma join_path_snoc: "join_path (ks @ [c]) = (if ks = [] then c else join_path ks @ ''/'' @ c)"
  by (induction ks rule: join_path.induct) auto

lemma foldl_clean_step_snoc:
  "c \<noteq> ''..'' \<Longrightarrow> foldl (clean_step r) [] (es @ [c]) = foldl (clean_step r) [] es @ [c]"
  by (simp add: clean_step_def)

text \<open>A path whose last element is an ordinary name keeps it as its end.\<close>

lemma Clean_ends:
  assumes "last (split_path path) = c" "c \<noteq> []" "c \<noteq> ''.''" "c \<noteq> ''..''"
  shows "\<exists>p. Clean path = p @ c"
proof -
  define bs where "bs = butlast (split_path path)"
  define es where "es = filter (\<lambda>c. c \<noteq> [] \<and> c \<noteq> ''.'') bs"
  define ks where "ks = foldl (clean_step (is_rooted path)) [] es"
  have sp: "split_path path = bs @ [c]"
    unfolding bs_def using append_butlast_last_id[OF split_path_nonempty[of path]] assms(1) by simp
  have ce: "clean_elems path = es @ [c]"
    by (simp add: clean_elems_def sp es_def assms(2,3))
  have k: "foldl (clean_step (is_rooted path)) [] (clean_elems path) = ks @ [c]"
    unfolding ce ks_def using assms(4) by (rule foldl_clean_step_snoc)
  have cl: "Clean path = (if is_rooted path then ''/'' @ join_path (ks @ [c]) else join_path (ks @ [c]))"
    by (simp add: Clean_def Let_def k)
  show ?thesis
  proof (cases "ks = []")
    case True
    show ?thesis
    proof (cases "is_rooted path")
      case True
      with \<open>ks = []\<close> cl have "Clean path = ''/'' @ c" by simp
      then show ?thesis by blast
    next
      case False
      with \<open>ks = []\<close> cl have "Clean path = [] @ c" by simp
      then show ?thesis by blast
    qed
  next
    case False
    show ?thesis
    proof (cases "is_rooted path")
      case True
      with \<open>ks \<noteq> []\<close> cl have "Clean path = (''/'' @ join_path ks @ ''/'') @ c"
        by (simp add: join_path_snoc)
      then show ?thesis by blast
    next
      case False
      with \<open>ks \<noteq> []\<close> cl have "Clean path = (join_path ks @ ''/'') @ c"
        by (simp add: join_path_snoc)
      then show ?thesis by blast
    qed
  qed
qed

lemma outPath_ends:
  assumes "CHR ''/'' \<notin> set today"
  shows "\<exists>p. outPath dir url today = p @ ''.csv''"
proof -
  define stem where "stem = TrimSuffix (Base url) ''.csv''"
  define tail where "tail = ''-'' @ today @ ''.csv''"
  have nosep: "CHR ''/'' \<notin> set tail" using assms by (simp add: tail_def)
  have tail_end: "\<exists>q. tail = q @ ''.csv''" by (simp add: tail_def)
  have key: "\<exists>p. Clean (xs @ tail) = p @ ''.csv''" for xs
  proof -
    have l: "last (split_path (xs @ tail)) = last (split_path xs) @ tail"
      by (simp add: split_path_append_nosep[OF nosep])
    obtain q where q: "tail = q @ ''.csv''" using tail_end by blast
    let ?c = "last (split_path xs) @ tail"
    have len: "length ?c \<ge> 5" by (simp add: tail_def)
    have c1: "?c \<noteq> []" using len by auto
    have c2: "?c \<noteq> ''.''"
    proof
      assume "?c = ''.''"
      then have "length ?c = length ''.''" by (rule arg_cong)
      with len show False by simp
    qed
    have c3: "?c \<noteq> ''..''"
    proof
      assume "?c = ''..''"
      then have "length ?c = length ''..''" by (rule arg_cong)
      with len show False by simp
    qed
    note c1 c2 c3
    from Clean_ends[OF l this] obtain p where "Clean (xs @ tail) = p @ ?c" by blast
    then have "Clean (xs @ tail) = (p @ last (split_path xs) @ q) @ ''.csv''" by (simp add: q)
    then show ?thesis by blast
  qed
  have name: "stem @ ''-'' @ today @ ''.csv'' = stem @ tail" by (simp add: tail_def)
  have ne: "stem @ tail \<noteq> []" by (simp add: tail_def)
  show ?thesis
  proof (cases "dir = []")
    case True
    then show ?thesis
      unfolding outPath_def Join_def stem_def[symmetric] name using ne key[of stem] by simp
  next
    case False
    have "dir @ ''/'' @ stem @ tail = (dir @ ''/'' @ stem) @ tail" by simp
    then show ?thesis
      unfolding outPath_def Join_def stem_def[symmetric] name using False key[of "dir @ ''/'' @ stem"]
      by simp
  qed
qed


lemma CreateTemp_try_fresh:
  "CreateTemp_try f prefix rnd k = Some name \<Longrightarrow> f name = None \<and> (\<exists>n. name = prefix @ itoa n)"
proof (induction f prefix rnd k rule: CreateTemp_try.induct)
  case (1 f prefix rnd k)
  have unfold: "CreateTemp_try f prefix rnd k =
     (if f (prefix @ itoa (rnd k)) \<noteq> None then
        (if k + 1 < 10000 then CreateTemp_try f prefix rnd (k + 1) else None)
      else Some (prefix @ itoa (rnd k)))"
    by (subst CreateTemp_try.simps) (simp add: Let_def)
  show ?case
  proof (cases "f (prefix @ itoa (rnd k)) = None")
    case True
    with "1.prems" unfold show ?thesis by auto
  next
    case False
    with "1.prems" unfold have t: "k + 1 < 10000" and
      r: "CreateTemp_try f prefix rnd (k + 1) = Some name"
      by (auto split: if_splits)
    from "1.IH"[OF refl _ t r] False show ?thesis by auto
  qed
qed

lemma tmp_not_outPath:
  assumes "CreateTemp_try f prefix rnd k = Some name" "CHR ''/'' \<notin> set today"
  shows "name \<noteq> outPath dir url today"
proof
  assume eq: "name = outPath dir url today"
  obtain n where n: "name = prefix @ itoa n" using CreateTemp_try_fresh[OF assms(1)] by blast
  obtain p where p: "outPath dir url today = p @ ''.csv''" using outPath_ends[OF assms(2)] by blast
  have "last name = digit_char (n mod 10)" using itoa_last[of n] by (simp add: n)
  moreover have "last name = CHR ''v''" by (simp add: eq p)
  ultimately show False using digit_char_not_v[of n] by simp
qed












lemma new_events_append [simp]: "new_events s (s'\<lparr>trace := trace s @ evs\<rparr>) = evs"
  by (simp add: new_events_def)

lemma requests_append [simp]: "requests (xs @ ys) = requests xs @ requests ys"
  by (induction xs rule: requests.induct) auto

lemma CreateTemp_name_fresh:
  assumes "CreateTemp_name e dir pattern f = Some tmp"
  shows "f tmp = None" and "CHR ''/'' \<notin> set today \<Longrightarrow> tmp \<noteq> outPath d url today"
proof -
  from assms have t: "CreateTemp_try f (joinPath (if dir = [] then TempDir e else dir) pattern)
             (nextRandom e) 0 = Some tmp"
    by (simp add: CreateTemp_name_def split: if_splits)
  from CreateTemp_try_fresh[OF t] show "f tmp = None" by simp
  show "CHR ''/'' \<notin> set today \<Longrightarrow> tmp \<noteq> outPath d url today"
    using tmp_not_outPath[OF t] by simp
qed

text \<open>The state after the effects of a task, as a list of effects applied to the log.\<close>

lemma fetchOne_body_no_request:
  "NewRequest_fails e \<Longrightarrow> fetchOne_body e dir url today meta s = (Some ErrNewRequest, s)"
  by (simp add: fetchOne_body_def NewRequest_def)

lemma fetchOne_body_transport:
  "\<not> NewRequest_fails e \<Longrightarrow> Do_result e 0 (request_for meta url) = None \<Longrightarrow>
   fetchOne_body e dir url today meta s =
     (Some ErrTransport, s\<lparr>trace := trace s @ [EvGet (request_for meta url)]\<rparr>)"
  by (simp add: fetchOne_body_def NewRequest_def Do_def request_for_def)

lemma fetchOne_body_304:
  "\<not> NewRequest_fails e \<Longrightarrow> Do_result e 0 (request_for meta url) = Some resp \<Longrightarrow>
   StatusCode resp = 304 \<Longrightarrow>
   fetchOne_body e dir url today meta s =
     (None, s\<lparr>trace := trace s @ [EvGet (request_for meta url)]\<rparr>)"
  by (simp add: fetchOne_body_def NewRequest_def Do_def request_for_def)

lemma fetchOne_body_status:
  "\<not> NewRequest_fails e \<Longrightarrow> Do_result e 0 (request_for meta url) = Some resp \<Longrightarrow>
   StatusCode resp \<noteq> 304 \<Longrightarrow> StatusCode resp \<noteq> 200 \<Longrightarrow>
   fetchOne_body e dir url today meta s =
     (Some (ErrStatus (StatusCode resp)), s\<lparr>trace := trace s @ [EvGet (request_for meta url)]\<rparr>)"
  by (simp add: fetchOne_body_def NewRequest_def Do_def request_for_def)

lemma fetchOne_body_no_temp:
  "\<not> NewRequest_fails e \<Longrightarrow> Do_result e 0 (request_for meta url) = Some resp \<Longrightarrow>
   StatusCode resp = 200 \<Longrightarrow> CreateTemp_name e dir ''tmp'' (files s) = None \<Longrightarrow>
   fetchOne_body e dir url today meta s =
     (Some ErrCreateTemp, s\<lparr>trace := trace s @ [EvGet (request_for meta url)]\<rparr>)"
  by (simp add: fetchOne_body_def NewRequest_def Do_def request_for_def CreateTemp_def)

lemma fetchOne_body_copy_fails:
  assumes "\<not> NewRequest_fails e" "Do_result e 0 (request_for meta url) = Some resp"
    "StatusCode resp = 200" "CreateTemp_name e dir ''tmp'' (files s) = Some tmp"
    "Write_fails e \<noteq> None \<or> Body_fails resp"
  shows "fetchOne_body e dir url today meta s =
     (Some ErrCopy, s\<lparr>trace := trace s @ [EvGet (request_for meta url), EvCreateTemp tmp,
         EvCopy tmp, EvRemove tmp]\<rparr>)"
proof -
  have f: "files s tmp = None" using CreateTemp_name_fresh(1)[OF assms(4)] .
  have "(files s)(tmp := None) = files s" using f by auto
  then show ?thesis
    using assms
    by (simp add: fetchOne_body_def NewRequest_def Do_def request_for_def CreateTemp_def
        Copy_def Remove_def Let_def)
qed


lemma record_headers_eq:
  "record_headers e out resp m0 s =
     (overwritten e resp m0,
      case mtime_hint e resp of None \<Rightarrow> s | Some t \<Rightarrow> Chtimes out t s)"
  by (auto simp: record_headers_def overwritten_def mtime_hint_def Let_def split: option.splits)

lemma fetchOne_body_rename_fails:
  assumes "\<not> NewRequest_fails e" "Do_result e 0 (request_for meta url) = Some resp"
    "StatusCode resp = 200" "CreateTemp_name e dir ''tmp'' (files s) = Some tmp"
    "Write_fails e = None" "\<not> Body_fails resp" "Rename_fails e"
  shows "fetchOne_body e dir url today meta s =
     (Some ErrRename, s\<lparr>trace := trace s @ [EvGet (request_for meta url), EvCreateTemp tmp,
         EvCopy tmp, EvRemove tmp]\<rparr>)"
proof -
  have f: "files s tmp = None" using CreateTemp_name_fresh(1)[OF assms(4)] .
  have "(files s)(tmp := None) = files s" using f by auto
  then show ?thesis
    using assms
    by (simp add: fetchOne_body_def NewRequest_def Do_def request_for_def CreateTemp_def
        Copy_def Remove_def Rename_def Let_def)
qed

text \<open>The effects of a task that stores a download.\<close>

lemma fetchOne_body_stores:
  assumes "\<not> NewRequest_fails e" "Do_result e 0 (request_for meta url) = Some resp"
    "StatusCode resp = 200" "CreateTemp_name e dir ''tmp'' (files s) = Some tmp"
    "Write_fails e = None" "\<not> Body_fails resp" "\<not> Rename_fails e"
    "CHR ''/'' \<notin> set today"
  shows "fetchOne_body e dir url today meta s =
     (None,
      s\<lparr>metadata := (if nil_map s then metadata s
                     else fmupd url (overwritten e resp MetadataEntry_zero) (metadata s)),
        panicked := (nil_map s \<or> panicked s),
        files := (files s)(outPath dir url today \<mapsto> stored_file e resp),
        trace := trace s @
          (if nil_map s
           then butlast (stored_events e [request_for meta url] tmp (outPath dir url today) url
                   resp (overwritten e resp MetadataEntry_zero))
           else stored_events e [request_for meta url] tmp (outPath dir url today) url
                   resp (overwritten e resp MetadataEntry_zero))\<rparr>)"
proof -
  have f: "files s tmp = None" using CreateTemp_name_fresh(1)[OF assms(4)] .
  have ne: "tmp \<noteq> outPath dir url today" using CreateTemp_name_fresh(2)[OF assms(4) assms(8)] .
  have u: "(files s)(tmp := None) = files s" using f by auto
  show ?thesis
  proof (cases "mtime_hint e resp")
    case None
    with assms(1-7) ne u f show ?thesis
      by (cases "nil_map s")
        (simp_all add: fetchOne_body_def NewRequest_def Do_def request_for_def CreateTemp_def
          Copy_def Remove_def Rename_def Let_def record_headers_eq Metadata_set_def
          stored_events_def stored_file_def)
  next
    case (Some t)
    with assms(1-7) ne u f show ?thesis
      by (cases "nil_map s"; cases "Chtimes_mtime t")
        (simp_all add: fetchOne_body_def NewRequest_def Do_def request_for_def CreateTemp_def
          Copy_def Remove_def Rename_def Let_def record_headers_eq Metadata_set_def
          stored_events_def stored_file_def Chtimes_def)
  qed
qed


lemma fetchOne_body_cases:
  assumes today: "CHR ''/'' \<notin> set today"
  obtains (failed) err evs where
      "fetchOne_body e dir url today meta s = (Some err, s\<lparr>trace := trace s @ evs\<rparr>)"
      "\<forall>u m. EvSet u m \<notin> set evs" "\<forall>a b. EvRename a b \<notin> set evs"
      "\<forall>a t. EvChtimes a t \<notin> set evs"
      "requests evs = (if NewRequest_fails e then [] else [request_for meta url])"
      "\<forall>resp. \<not> NewRequest_fails e \<and> Do_result e 0 (request_for meta url) = Some resp \<longrightarrow>
         StatusCode resp \<noteq> 304 \<and> (StatusCode resp = 200 \<longrightarrow> \<not> files_go_well e dir resp (files s))"
  | (unchanged) resp where "\<not> NewRequest_fails e"
      "Do_result e 0 (request_for meta url) = Some resp" "StatusCode resp = 304"
      "fetchOne_body e dir url today meta s =
         (None, s\<lparr>trace := trace s @ [EvGet (request_for meta url)]\<rparr>)"
  | (stored) resp tmp where "\<not> NewRequest_fails e"
      "Do_result e 0 (request_for meta url) = Some resp"
      "StatusCode resp = 200" "files_go_well e dir resp (files s)"
      "CreateTemp_name e dir ''tmp'' (files s) = Some tmp"
      "fetchOne_body e dir url today meta s =
        (None,
         s\<lparr>metadata := (if nil_map s then metadata s
                        else fmupd url (overwritten e resp MetadataEntry_zero) (metadata s)),
           panicked := (nil_map s \<or> panicked s),
           files := (files s)(outPath dir url today \<mapsto> stored_file e resp),
           trace := trace s @
             (if nil_map s
              then butlast (stored_events e [request_for meta url] tmp (outPath dir url today)
                      url resp (overwritten e resp MetadataEntry_zero))
              else stored_events e [request_for meta url] tmp (outPath dir url today)
                      url resp (overwritten e resp MetadataEntry_zero))\<rparr>)"
proof (cases "NewRequest_fails e")
  case True
  have "fetchOne_body e dir url today meta s = (Some ErrNewRequest, s\<lparr>trace := trace s @ []\<rparr>)"
    using fetchOne_body_no_request[OF True, of dir url today meta s] by simp
  then show ?thesis by (rule that(1)) (simp_all add: True)
next
  case nr: False
  show ?thesis
  proof (cases "Do_result e 0 (request_for meta url)")
    case None
    show ?thesis
      by (rule that(1)[OF fetchOne_body_transport[OF nr None]]) (simp_all add: nr None)
  next
    case (Some r)
    consider "StatusCode r = 304" | "StatusCode r \<noteq> 304" "StatusCode r \<noteq> 200"
      | "StatusCode r = 200" by blast
    then show ?thesis
    proof cases
      case 1
      show ?thesis by (rule that(2)[OF nr Some 1 fetchOne_body_304[OF nr Some 1]])
    next
      case 2
      show ?thesis
        by (rule that(1)[OF fetchOne_body_status[OF nr Some 2]]) (simp_all add: nr Some 2)
    next
      case 3
      show ?thesis
      proof (cases "CreateTemp_name e dir ''tmp'' (files s)")
        case None
        show ?thesis
          by (rule that(1)[OF fetchOne_body_no_temp[OF nr Some 3 None]])
            (simp_all add: nr Some 3 None files_go_well_def)
      next
        case tmp: (Some tmp)
        show ?thesis
        proof (cases "Write_fails e \<noteq> None \<or> Body_fails r")
          case True
          show ?thesis
            by (rule that(1)[OF fetchOne_body_copy_fails[OF nr Some 3 tmp True]])
              (use nr Some 3 True in \<open>auto simp: files_go_well_def\<close>)
        next
          case False
          then have w: "Write_fails e = None" and b: "\<not> Body_fails r" by auto
          show ?thesis
          proof (cases "Rename_fails e")
            case True
            show ?thesis
              by (rule that(1)[OF fetchOne_body_rename_fails[OF nr Some 3 tmp w b True]])
                (use nr Some 3 True in \<open>auto simp: files_go_well_def\<close>)
          next
            case False
            have g: "files_go_well e dir r (files s)"
              using tmp w b False by (simp add: files_go_well_def)
            show ?thesis
              by (rule that(3)[OF nr Some 3 g tmp
                    fetchOne_body_stores[OF nr Some 3 tmp w b False today]])
          qed
        qed
      qed
    qed
  qed
qed

lemma main_loop_body_no_request:
  "NewRequest_fails e \<Longrightarrow> main_loop_body e dir url today (h, s) = (True, s)"
  by (simp add: main_loop_body_def NewRequest_def Let_def)

lemma main_loop_body_transport:
  "\<not> NewRequest_fails e \<Longrightarrow> meta = Metadata_get (metadata s) url \<Longrightarrow>
   Do_result e 0 (request_for meta url) = None \<Longrightarrow>
   main_loop_body e dir url today (h, s) =
     (True, s\<lparr>trace := trace s @ [EvGet (request_for meta url)]\<rparr>)"
  by (simp add: main_loop_body_def NewRequest_def Do_def request_for_def Let_def)

lemma main_loop_body_304:
  "\<not> NewRequest_fails e \<Longrightarrow> meta = Metadata_get (metadata s) url \<Longrightarrow>
   Do_result e 0 (request_for meta url) = Some resp0 \<Longrightarrow> StatusCode resp0 = 304 \<Longrightarrow>
   main_loop_body e dir url today (h, s) =
     (h, s\<lparr>trace := trace s @ [EvGet (request_for meta url)]\<rparr>)"
  by (simp add: main_loop_body_def NewRequest_def Do_def request_for_def Let_def)

lemma main_loop_body_status:
  "\<not> NewRequest_fails e \<Longrightarrow> meta = Metadata_get (metadata s) url \<Longrightarrow>
   Do_result e 0 (request_for meta url) = Some resp0 \<Longrightarrow>
   StatusCode resp0 \<noteq> 304 \<Longrightarrow> StatusCode resp0 \<noteq> 200 \<Longrightarrow>
   main_loop_body e dir url today (h, s) =
     (True, s\<lparr>trace := trace s @ [EvGet (request_for meta url)]\<rparr>)"
  by (simp add: main_loop_body_def NewRequest_def Do_def request_for_def Let_def)

lemma main_loop_body_second_fails:
  "\<not> NewRequest_fails e \<Longrightarrow> meta = Metadata_get (metadata s) url \<Longrightarrow>
   Do_result e 0 (request_for meta url) = Some resp0 \<Longrightarrow> StatusCode resp0 = 200 \<Longrightarrow>
   Do_result e 1 (request_for meta url) = None \<Longrightarrow>
   main_loop_body e dir url today (h, s) =
     (True, s\<lparr>trace := trace s @ [EvGet (request_for meta url), EvGet (request_for meta url)]\<rparr>)"
  by (simp add: main_loop_body_def NewRequest_def Do_def request_for_def Let_def)

lemma main_loop_body_no_temp:
  "\<not> NewRequest_fails e \<Longrightarrow> meta = Metadata_get (metadata s) url \<Longrightarrow>
   Do_result e 0 (request_for meta url) = Some resp0 \<Longrightarrow> StatusCode resp0 = 200 \<Longrightarrow>
   Do_result e 1 (request_for meta url) = Some resp \<Longrightarrow>
   CreateTemp_name e dir ''tmp'' (files s) = None \<Longrightarrow>
   main_loop_body e dir url today (h, s) =
     (True, s\<lparr>trace := trace s @ [EvGet (request_for meta url), EvGet (request_for meta url)]\<rparr>)"
  by (simp add: main_loop_body_def NewRequest_def Do_def request_for_def CreateTemp_def Let_def)

lemma main_loop_body_copy_fails:
  assumes "\<not> NewRequest_fails e" "meta = Metadata_get (metadata s) url"
    "Do_result e 0 (request_for meta url) = Some resp0" "StatusCode resp0 = 200"
    "Do_result e 1 (request_for meta url) = Some resp"
    "CreateTemp_name e dir ''tmp'' (files s) = Some tmp"
    "Write_fails e \<noteq> None \<or> Body_fails resp"
  shows "main_loop_body e dir url today (h, s) =
     (True, s\<lparr>trace := trace s @ [EvGet (request_for meta url), EvGet (request_for meta url),
         EvCreateTemp tmp, EvCopy tmp, EvRemove tmp]\<rparr>)"
proof -
  have f: "files s tmp = None" using CreateTemp_name_fresh(1)[OF assms(6)] .
  have "(files s)(tmp := None) = files s" using f by auto
  then show ?thesis
    using assms
    by (simp add: main_loop_body_def NewRequest_def Do_def request_for_def CreateTemp_def
        Copy_def Remove_def Let_def)
qed

lemma main_loop_body_rename_fails:
  assumes "\<not> NewRequest_fails e" "meta = Metadata_get (metadata s) url"
    "Do_result e 0 (request_for meta url) = Some resp0" "StatusCode resp0 = 200"
    "Do_result e 1 (request_for meta url) = Some resp"
    "CreateTemp_name e dir ''tmp'' (files s) = Some tmp"
    "Write_fails e = None" "\<not> Body_fails resp" "Rename_fails e"
  shows "main_loop_body e dir url today (h, s) =
     (True, s\<lparr>files := (files s)(tmp \<mapsto> \<lparr>content = Body resp, mtime = Now e\<rparr>),
         trace := trace s @ [EvGet (request_for meta url), EvGet (request_for meta url),
         EvCreateTemp tmp, EvCopy tmp]\<rparr>)"
  using assms
  by (simp add: main_loop_body_def NewRequest_def Do_def request_for_def CreateTemp_def
        Copy_def Rename_def Let_def)

lemma main_loop_body_stores:
  assumes "\<not> NewRequest_fails e" "meta = Metadata_get (metadata s) url"
    "Do_result e 0 (request_for meta url) = Some resp0" "StatusCode resp0 = 200"
    "Do_result e 1 (request_for meta url) = Some resp"
    "CreateTemp_name e dir ''tmp'' (files s) = Some tmp"
    "Write_fails e = None" "\<not> Body_fails resp" "\<not> Rename_fails e"
    "CHR ''/'' \<notin> set today"
  shows "main_loop_body e dir url today (h, s) =
     (h,
      s\<lparr>metadata := (if nil_map s then metadata s
                     else fmupd url (overwritten e resp meta) (metadata s)),
        panicked := (nil_map s \<or> panicked s),
        files := (files s)(outPath dir url today \<mapsto> stored_file e resp),
        trace := trace s @
          (if nil_map s
           then butlast (stored_events e [request_for meta url, request_for meta url] tmp
                   (outPath dir url today) url resp (overwritten e resp meta))
           else stored_events e [request_for meta url, request_for meta url] tmp
                   (outPath dir url today) url resp (overwritten e resp meta))\<rparr>)"
proof -
  have f: "files s tmp = None" using CreateTemp_name_fresh(1)[OF assms(6)] .
  have ne: "tmp \<noteq> outPath dir url today" using CreateTemp_name_fresh(2)[OF assms(6) assms(10)] .
  have u: "(files s)(tmp := None) = files s" using f by auto
  show ?thesis
  proof (cases "mtime_hint e resp")
    case None
    with assms(1-9) ne u f show ?thesis
      by (cases "nil_map s")
        (simp_all add: main_loop_body_def NewRequest_def Do_def request_for_def CreateTemp_def
          Copy_def Rename_def Let_def record_headers_eq Metadata_set_def
          stored_events_def stored_file_def)
  next
    case (Some t)
    with assms(1-9) ne u f show ?thesis
      by (cases "nil_map s"; cases "Chtimes_mtime t")
        (simp_all add: main_loop_body_def NewRequest_def Do_def request_for_def CreateTemp_def
          Copy_def Rename_def Let_def record_headers_eq Metadata_set_def
          stored_events_def stored_file_def Chtimes_def)
  qed
qed

lemma main_loop_body_cases:
  assumes today: "CHR ''/'' \<notin> set today" and meta: "meta = Metadata_get (metadata s) url"
  obtains (failed) evs f' where
      "main_loop_body e dir url today (h, s) = (True, s\<lparr>files := f', trace := trace s @ evs\<rparr>)"
      "\<forall>u m. EvSet u m \<notin> set evs" "\<forall>a b. EvRename a b \<notin> set evs"
      "\<forall>a t. EvChtimes a t \<notin> set evs"
      "requests evs =
         (if NewRequest_fails e then []
          else case Do_result e 0 (request_for meta url) of
                 None \<Rightarrow> [request_for meta url]
               | Some r0 \<Rightarrow> if StatusCode r0 = 200
                            then [request_for meta url, request_for meta url]
                            else [request_for meta url])"
      "f' (outPath dir url today) = files s (outPath dir url today)"
      "\<forall>tmp. CreateTemp_name e dir ''tmp'' (files s) = Some tmp \<and> EvRemove tmp \<in> set evs \<longrightarrow> f' = files s"
      "\<forall>r0. \<not> NewRequest_fails e \<and> Do_result e 0 (request_for meta url) = Some r0 \<longrightarrow>
         StatusCode r0 \<noteq> 304 \<and>
         (\<forall>resp. StatusCode r0 = 200 \<and> Do_result e 1 (request_for meta url) = Some resp \<longrightarrow>
            \<not> files_go_well e dir resp (files s))"
  | (unchanged) resp0 where "\<not> NewRequest_fails e"
      "Do_result e 0 (request_for meta url) = Some resp0" "StatusCode resp0 = 304"
      "main_loop_body e dir url today (h, s) =
         (h, s\<lparr>trace := trace s @ [EvGet (request_for meta url)]\<rparr>)"
  | (stored) resp0 resp tmp where "\<not> NewRequest_fails e"
      "Do_result e 0 (request_for meta url) = Some resp0" "StatusCode resp0 = 200"
      "Do_result e 1 (request_for meta url) = Some resp"
      "files_go_well e dir resp (files s)"
      "CreateTemp_name e dir ''tmp'' (files s) = Some tmp"
      "main_loop_body e dir url today (h, s) =
        (h,
         s\<lparr>metadata := (if nil_map s then metadata s
                        else fmupd url (overwritten e resp meta) (metadata s)),
           panicked := (nil_map s \<or> panicked s),
           files := (files s)(outPath dir url today \<mapsto> stored_file e resp),
           trace := trace s @
             (if nil_map s
              then butlast (stored_events e [request_for meta url, request_for meta url] tmp
                      (outPath dir url today) url resp (overwritten e resp meta))
              else stored_events e [request_for meta url, request_for meta url] tmp
                      (outPath dir url today) url resp (overwritten e resp meta))\<rparr>)"
proof (cases "NewRequest_fails e")
  case True
  have "main_loop_body e dir url today (h, s) = (True, s\<lparr>files := files s, trace := trace s @ []\<rparr>)"
    using main_loop_body_no_request[OF True, of dir url today h s] by simp
  then show ?thesis by (rule that(1)) (simp_all add: True)
next
  case nr: False
  have same: "s\<lparr>trace := t\<rparr> = s\<lparr>files := files s, trace := t\<rparr>" for t by simp
  show ?thesis
  proof (cases "Do_result e 0 (request_for meta url)")
    case None
    show ?thesis
      by (rule that(1)[OF main_loop_body_transport[OF nr meta None, unfolded same]])
        (simp_all add: nr None)
  next
    case (Some r)
    consider "StatusCode r = 304" | "StatusCode r \<noteq> 304" "StatusCode r \<noteq> 200"
      | "StatusCode r = 200" by blast
    then show ?thesis
    proof cases
      case 1
      show ?thesis by (rule that(2)[OF nr Some 1 main_loop_body_304[OF nr meta Some 1]])
    next
      case 2
      show ?thesis
        by (rule that(1)[OF main_loop_body_status[OF nr meta Some 2, unfolded same]])
          (simp_all add: nr Some 2)
    next
      case 3
      show ?thesis
      proof (cases "Do_result e 1 (request_for meta url)")
        case None
        show ?thesis
          by (rule that(1)[OF main_loop_body_second_fails[OF nr meta Some 3 None, unfolded same]])
            (use nr Some 3 None in simp_all)
      next
        case r2: (Some r2)
        show ?thesis
        proof (cases "CreateTemp_name e dir ''tmp'' (files s)")
          case None
          show ?thesis
            by (rule that(1)[OF main_loop_body_no_temp[OF nr meta Some 3 r2 None, unfolded same]])
              (use nr Some 3 r2 None in \<open>simp_all add: files_go_well_def\<close>)
        next
          case tmp: (Some tmp)
          show ?thesis
          proof (cases "Write_fails e \<noteq> None \<or> Body_fails r2")
            case True
            show ?thesis
              by (rule that(1)[OF main_loop_body_copy_fails[OF nr meta Some 3 r2 tmp True,
                      unfolded same]])
                (use nr Some 3 r2 True in \<open>auto simp: files_go_well_def\<close>)
          next
            case False
            then have w: "Write_fails e = None" and b: "\<not> Body_fails r2" by auto
            show ?thesis
            proof (cases "Rename_fails e")
              case True
              have ne: "tmp \<noteq> outPath dir url today"
                using CreateTemp_name_fresh(2)[OF tmp today] .
              show ?thesis
                by (rule that(1)[OF main_loop_body_rename_fails[OF nr meta Some 3 r2 tmp w b True]])
                  (use nr Some 3 r2 True ne tmp in \<open>auto simp: files_go_well_def\<close>)
            next
              case False
              have g: "files_go_well e dir r2 (files s)"
                using tmp w b False by (simp add: files_go_well_def)
              show ?thesis
                by (rule that(3)[OF nr Some 3 r2 g tmp
                      main_loop_body_stores[OF nr meta Some 3 r2 tmp w b False today]])
            qed
          qed
        qed
      qed
    qed
  qed
qed

lemma fetchOne_requests:
  "requests (new_events s (snd (fetchOne_body e dir url today meta s))) =
     (if NewRequest_fails e then [] else [request_for meta url])"
  by (auto simp: fetchOne_body_def NewRequest_def Do_def request_for_def CreateTemp_def
        Copy_def Remove_def Rename_def Let_def record_headers_eq Metadata_set_def Chtimes_def
        new_events_def split: option.splits)

lemma main_loop_body_requests:
  "requests (new_events s (snd (main_loop_body e dir url today (h, s)))) =
     (if NewRequest_fails e then []
      else case Do_result e 0 (request_for (Metadata_get (metadata s) url) url) of
             None \<Rightarrow> [request_for (Metadata_get (metadata s) url) url]
           | Some r0 \<Rightarrow>
               if StatusCode r0 = 200
               then [request_for (Metadata_get (metadata s) url) url,
                     request_for (Metadata_get (metadata s) url) url]
               else [request_for (Metadata_get (metadata s) url) url])"
  by (auto simp: main_loop_body_def NewRequest_def Do_def request_for_def CreateTemp_def
        Copy_def Remove_def Rename_def Let_def record_headers_eq Metadata_set_def Chtimes_def
        new_events_def split: option.splits)

lemma request_for_fields:
  "req_Method (request_for meta url) = ''GET''"
  "req_URL (request_for meta url) = url"
  "req_Header (request_for meta url) k =
     (if k = ''If-None-Match'' \<and> ETag meta \<noteq> [] then Some [ETag meta]
      else if k = ''If-Modified-Since'' \<and> LastModified meta \<noteq> [] then Some [LastModified meta]
      else None)"
  by (simp_all add: request_for_def set_conditional_def Header_Set_def Let_def)

text \<open>C2 (amended). \<^verbatim>\<open>fetchOne\<close> of the pool program sends one GET for a task when the
  request can be built, and none otherwise: it never sends a second one. The loop of
  \<^verbatim>\<open>main.go\<close> sends that request and, when the response to it has status 200, sends the
  same request a second time.\<close>

theorem one_request_and_its_repeat:
  "requests (new_events s (snd (fetchOne e dir url today s))) =
     (if NewRequest_fails e then [] else [request_for (Metadata_get (metadata s) url) url])
   \<and> requests (new_events s (snd (main_loop_body e dir url today (h, s)))) =
     (if NewRequest_fails e then []
      else case Do_result e 0 (request_for (Metadata_get (metadata s) url) url) of
             None \<Rightarrow> [request_for (Metadata_get (metadata s) url) url]
           | Some r0 \<Rightarrow>
               if StatusCode r0 = 200
               then [request_for (Metadata_get (metadata s) url) url,
                     request_for (Metadata_get (metadata s) url) url]
               else [request_for (Metadata_get (metadata s) url) url])"
  unfolding fetchOne_def using fetchOne_requests main_loop_body_requests by simp

text \<open>C2 as stated fails for \<^verbatim>\<open>main.go\<close>: on a response with status 200 the task sends two
  requests.\<close>

theorem second_request_counterexample:
  "length (requests (new_events example_state
     (snd (main_loop_body (example_env (example_response 200 [(''ETag'', ''v1'')]))
            ''stationA'' example_url ''2025-06-01'' (False, example_state))))) = 2"
  by code_simp

text \<open>C7. Whenever the request can be built, \<^verbatim>\<open>fetchOne\<close> sends exactly one request \<open>r\<close>. It
  is a GET of the task's URL. Its \<^verbatim>\<open>If-Modified-Since\<close> header is the \<^verbatim>\<open>LastModified\<close> field of
  the prior entry when that field is not empty, and is absent when it is empty; its
  \<^verbatim>\<open>If-None-Match\<close> header is the \<^verbatim>\<open>ETag\<close> field of the prior entry when that field is not
  empty, and is absent when it is empty; it has no other header. The loop of \<^verbatim>\<open>main.go\<close>
  sends this same request, once or twice.\<close>

theorem conditional_headers:
  assumes "\<not> NewRequest_fails e"
  shows "\<exists>r. requests (new_events s (snd (fetchOne e dir url today s))) = [r] \<and>
         req_Method r = ''GET'' \<and> req_URL r = url \<and>
         req_Header r ''If-Modified-Since'' =
           (if LastModified (Metadata_get (metadata s) url) = [] then None
            else Some [LastModified (Metadata_get (metadata s) url)]) \<and>
         req_Header r ''If-None-Match'' =
           (if ETag (Metadata_get (metadata s) url) = [] then None
            else Some [ETag (Metadata_get (metadata s) url)]) \<and>
         (\<forall>k. k \<noteq> ''If-Modified-Since'' \<and> k \<noteq> ''If-None-Match'' \<longrightarrow> req_Header r k = None) \<and>
         (requests (new_events s (snd (main_loop_body e dir url today (h, s)))) = [r] \<or>
          requests (new_events s (snd (main_loop_body e dir url today (h, s)))) = [r, r])"
proof -
  let ?r = "request_for (Metadata_get (metadata s) url) url"
  have 1: "requests (new_events s (snd (fetchOne e dir url today s))) = [?r]"
    unfolding fetchOne_def fetchOne_requests using assms by simp
  have 2: "requests (new_events s (snd (main_loop_body e dir url today (h, s)))) = [?r] \<or>
           requests (new_events s (snd (main_loop_body e dir url today (h, s)))) = [?r, ?r]"
    unfolding main_loop_body_requests using assms by (simp split: option.splits)
  have 3: "req_Method ?r = ''GET'' \<and> req_URL ?r = url \<and>
         req_Header ?r ''If-Modified-Since'' =
           (if LastModified (Metadata_get (metadata s) url) = [] then None
            else Some [LastModified (Metadata_get (metadata s) url)]) \<and>
         req_Header ?r ''If-None-Match'' =
           (if ETag (Metadata_get (metadata s) url) = [] then None
            else Some [ETag (Metadata_get (metadata s) url)]) \<and>
         (\<forall>k. k \<noteq> ''If-Modified-Since'' \<and> k \<noteq> ''If-None-Match'' \<longrightarrow> req_Header ?r k = None)"
    by (simp add: request_for_fields)
  show ?thesis
    by (rule exI[of _ ?r], rule conjI, rule 1, intro conjI)
      (use 2 3 in simp_all)
qed

text \<open>An instance of C7: with a prior entry that has both fields, \<^verbatim>\<open>fetchOne\<close> sends one
  request, with both conditional headers.\<close>

theorem conditional_headers_witness:
  "map (\<lambda>r. (req_Method r, req_URL r, req_Header r ''If-Modified-Since'',
             req_Header r ''If-None-Match'', req_Header r ''Accept''))
     (requests (new_events (example_state_with example_url example_entry)
        (snd (fetchOne (example_env (example_response 304 [])) ''stationA'' example_url
               ''2025-06-01'' (example_state_with example_url example_entry))))) =
     [(''GET'', example_url, Some [''Sat, 31 May 2025 00:00:00 GMT''], Some [''v0''], None)]"
proof -
  let ?s = "example_state_with example_url example_entry"
  let ?e = "example_env (example_response 304 [])"
  have m: "Metadata_get (metadata ?s) example_url = example_entry"
    by (simp add: example_state_with_def Metadata_get_def)
  have n: "\<not> NewRequest_fails ?e" by (simp add: example_env_def)
  have lm: "LastModified example_entry = ''Sat, 31 May 2025 00:00:00 GMT''"
    and et: "ETag example_entry = ''v0''"
    by (simp_all add: example_entry_def)
  have "\<exists>r. requests (new_events ?s
          (snd (fetchOne ?e ''stationA'' example_url ''2025-06-01'' ?s))) = [r] \<and>
        req_Method r = ''GET'' \<and> req_URL r = example_url \<and>
        req_Header r ''If-Modified-Since'' = Some [''Sat, 31 May 2025 00:00:00 GMT''] \<and>
        req_Header r ''If-None-Match'' = Some [''v0''] \<and>
        (\<forall>k. k \<noteq> ''If-Modified-Since'' \<and> k \<noteq> ''If-None-Match'' \<longrightarrow> req_Header r k = None) \<and>
        (requests (new_events ?s (snd (main_loop_body ?e ''stationA'' example_url ''2025-06-01''
            (False, ?s)))) = [r] \<or>
         requests (new_events ?s (snd (main_loop_body ?e ''stationA'' example_url ''2025-06-01''
            (False, ?s)))) = [r, r])"
    using conditional_headers[OF n, where s = ?s and dir = "''stationA''" and url = example_url
      and today = "''2025-06-01''" and h = False]
    unfolding m lm et by simp
  then obtain r where a: "requests (new_events ?s
          (snd (fetchOne ?e ''stationA'' example_url ''2025-06-01'' ?s))) = [r]"
    and b: "req_Method r = ''GET''" "req_URL r = example_url"
      "req_Header r ''If-Modified-Since'' = Some [''Sat, 31 May 2025 00:00:00 GMT'']"
      "req_Header r ''If-None-Match'' = Some [''v0'']"
    and c: "\<forall>k. k \<noteq> ''If-Modified-Since'' \<and> k \<noteq> ''If-None-Match'' \<longrightarrow> req_Header r k = None"
    by (elim exE conjE)
  have d: "req_Header r ''Accept'' = None" using c[rule_format, of "''Accept''"] by simp
  show ?thesis unfolding a using b d by simp
qed

text \<open>C6. A task whose request is answered with status 304 reports no error, leaves every
  file and the whole metadata map as they were, and does nothing but send its one request;
  this holds for \<^verbatim>\<open>fetchOne\<close> and for the loop of \<^verbatim>\<open>main.go\<close>, whose flag is left as it
  was.\<close>

theorem not_modified_changes_nothing:
  assumes "\<not> NewRequest_fails e"
    and "Do_result e 0 (request_for (Metadata_get (metadata s) url) url) = Some resp"
    and "StatusCode resp = 304"
  shows "fst (fetchOne e dir url today s) = None \<and>
         files (snd (fetchOne e dir url today s)) = files s \<and>
         metadata (snd (fetchOne e dir url today s)) = metadata s \<and>
         new_events s (snd (fetchOne e dir url today s)) =
           [EvGet (request_for (Metadata_get (metadata s) url) url)] \<and>
         fst (main_loop_body e dir url today (h, s)) = h \<and>
         files (snd (main_loop_body e dir url today (h, s))) = files s \<and>
         metadata (snd (main_loop_body e dir url today (h, s))) = metadata s \<and>
         new_events s (snd (main_loop_body e dir url today (h, s))) =
           [EvGet (request_for (Metadata_get (metadata s) url) url)]"
  unfolding fetchOne_def
  using fetchOne_body_304[OF assms] main_loop_body_304[OF assms(1) refl assms(2,3)]
  by simp

text \<open>An instance of C6: a prior entry with both fields and a response with status
  304.\<close>

theorem not_modified_witness:
  "fst (fetchOne (example_env (example_response 304 [])) ''stationA'' example_url ''2025-06-01''
         (example_state_with example_url example_entry)) = None \<and>
   files (snd (fetchOne (example_env (example_response 304 [])) ''stationA'' example_url
         ''2025-06-01'' (example_state_with example_url example_entry))) = Map.empty \<and>
   metadata (snd (fetchOne (example_env (example_response 304 [])) ''stationA'' example_url
         ''2025-06-01'' (example_state_with example_url example_entry)))
     = fmupd example_url example_entry fmempty \<and>
   fst (main_loop_body (example_env (example_response 304 [])) ''stationA'' example_url
         ''2025-06-01'' (False, example_state_with example_url example_entry)) = False \<and>
   files (snd (main_loop_body (example_env (example_response 304 [])) ''stationA'' example_url
         ''2025-06-01'' (False, example_state_with example_url example_entry))) = Map.empty \<and>
   metadata (snd (main_loop_body (example_env (example_response 304 [])) ''stationA'' example_url
         ''2025-06-01'' (False, example_state_with example_url example_entry)))
     = fmupd example_url example_entry fmempty"
proof -
  let ?s = "example_state_with example_url example_entry"
  let ?e = "example_env (example_response 304 [])"
  have 1: "\<not> NewRequest_fails ?e" by (simp add: example_env_def)
  have 2: "Do_result ?e 0 (request_for (Metadata_get (metadata ?s) example_url) example_url)
             = Some (example_response 304 [])"
    by (simp add: example_env_def)
  have 3: "StatusCode (example_response 304 []) = 304" by (simp add: example_response_def)
  from not_modified_changes_nothing[OF 1 2 3, of "''stationA''" "''2025-06-01''" False]
  show ?thesis by (simp add: example_state_with_def)
qed

text \<open>C4. The temporary file of a task has a fresh name, which is not the destination
  path. When the copy of the response body into it fails, the task reports the failure, the
  files are afterwards exactly as they were before the task (the temporary file is gone, the
  destination path is neither created nor modified), the metadata map is unchanged, and
  beyond its requests the task has only created, written and removed the temporary file.
  For \<^verbatim>\<open>fetchOne\<close> and for the loop of \<^verbatim>\<open>main.go\<close>, which copies the body of its second
  response and reports the failure through its flag.\<close>

theorem failed_copy_leaves_no_file:
  assumes "\<not> NewRequest_fails e"
    and "Do_result e 0 (request_for (Metadata_get (metadata s) url) url) = Some resp0"
    and "StatusCode resp0 = 200"
    and "CreateTemp_name e dir ''tmp'' (files s) = Some tmp"
  shows "tmp \<noteq> outPath dir url (Format_date d) \<and> files s tmp = None \<and>
         (Write_fails e \<noteq> None \<or> Body_fails resp0 \<longrightarrow>
            fst (fetchOne e dir url (Format_date d) s) = Some ErrCopy \<and>
            files (snd (fetchOne e dir url (Format_date d) s)) = files s \<and>
            metadata (snd (fetchOne e dir url (Format_date d) s)) = metadata s \<and>
            new_events s (snd (fetchOne e dir url (Format_date d) s)) =
              [EvGet (request_for (Metadata_get (metadata s) url) url),
               EvCreateTemp tmp, EvCopy tmp, EvRemove tmp]) \<and>
         (\<forall>resp. Do_result e 1 (request_for (Metadata_get (metadata s) url) url) = Some resp \<and>
                 (Write_fails e \<noteq> None \<or> Body_fails resp) \<longrightarrow>
            fst (main_loop_body e dir url (Format_date d) (h, s)) = True \<and>
            files (snd (main_loop_body e dir url (Format_date d) (h, s))) = files s \<and>
            metadata (snd (main_loop_body e dir url (Format_date d) (h, s))) = metadata s \<and>
            new_events s (snd (main_loop_body e dir url (Format_date d) (h, s))) =
              [EvGet (request_for (Metadata_get (metadata s) url) url),
               EvGet (request_for (Metadata_get (metadata s) url) url),
               EvCreateTemp tmp, EvCopy tmp, EvRemove tmp])"
proof (intro conjI impI allI)
  show "tmp \<noteq> outPath dir url (Format_date d)"
    using CreateTemp_name_fresh(2)[OF assms(4) Format_date_no_sep] .
  show "files s tmp = None" using CreateTemp_name_fresh(1)[OF assms(4)] .
next
  assume c: "Write_fails e \<noteq> None \<or> Body_fails resp0"
  note r = fetchOne_body_copy_fails[OF assms(1-4) c, of "Format_date d"]
  show "fst (fetchOne e dir url (Format_date d) s) = Some ErrCopy"
    unfolding fetchOne_def r by simp
  show "files (snd (fetchOne e dir url (Format_date d) s)) = files s"
    unfolding fetchOne_def r by simp
  show "metadata (snd (fetchOne e dir url (Format_date d) s)) = metadata s"
    unfolding fetchOne_def r by simp
  show "new_events s (snd (fetchOne e dir url (Format_date d) s)) =
              [EvGet (request_for (Metadata_get (metadata s) url) url),
               EvCreateTemp tmp, EvCopy tmp, EvRemove tmp]"
    unfolding fetchOne_def r by simp
next
  fix resp
  assume a: "Do_result e 1 (request_for (Metadata_get (metadata s) url) url) = Some resp \<and>
                 (Write_fails e \<noteq> None \<or> Body_fails resp)"
  then have a1: "Do_result e 1 (request_for (Metadata_get (metadata s) url) url) = Some resp"
    and a2: "Write_fails e \<noteq> None \<or> Body_fails resp" by simp_all
  note r = main_loop_body_copy_fails[OF assms(1) refl assms(2,3) a1 assms(4) a2,
      of "Format_date d" h]
  show "fst (main_loop_body e dir url (Format_date d) (h, s)) = True"
    unfolding r by simp
  show "files (snd (main_loop_body e dir url (Format_date d) (h, s))) = files s"
    unfolding r by simp
  show "metadata (snd (main_loop_body e dir url (Format_date d) (h, s))) = metadata s"
    unfolding r by simp
  show "new_events s (snd (main_loop_body e dir url (Format_date d) (h, s))) =
              [EvGet (request_for (Metadata_get (metadata s) url) url),
               EvGet (request_for (Metadata_get (metadata s) url) url),
               EvCreateTemp tmp, EvCopy tmp, EvRemove tmp]"
    unfolding r by simp
qed

text \<open>An instance of C4: a response with status 200 whose body cannot be read to its
  end.\<close>

theorem failed_copy_witness:
  "''stationA/tmp42'' \<noteq> outPath ''stationA'' example_url (Format_date example_date) \<and>
   fst (fetchOne (example_env ((example_response 200 [])\<lparr>Body_fails := True\<rparr>)) ''stationA''
          example_url (Format_date example_date) example_state) = Some ErrCopy \<and>
   files (snd (fetchOne (example_env ((example_response 200 [])\<lparr>Body_fails := True\<rparr>))
          ''stationA'' example_url (Format_date example_date) example_state)) = Map.empty \<and>
   fst (main_loop_body (example_env ((example_response 200 [])\<lparr>Body_fails := True\<rparr>))
          ''stationA'' example_url (Format_date example_date) (False, example_state)) = True \<and>
   files (snd (main_loop_body (example_env ((example_response 200 [])\<lparr>Body_fails := True\<rparr>))
          ''stationA'' example_url (Format_date example_date) (False, example_state))) = Map.empty"
proof -
  let ?r = "(example_response 200 [])\<lparr>Body_fails := True\<rparr>"
  let ?e = "example_env ?r"
  let ?q = "request_for (Metadata_get (metadata example_state) example_url) example_url"
  have 1: "\<not> NewRequest_fails ?e" by (simp add: example_env_def)
  have 2: "Do_result ?e 0 ?q = Some ?r" by (simp add: example_env_def)
  have b2: "Do_result ?e 1 ?q = Some ?r" by (simp add: example_env_def)
  have 3: "StatusCode ?r = 200" by (simp add: example_response_def)
  have 4: "CreateTemp_name ?e ''stationA'' ''tmp'' (files example_state) = Some ''stationA/tmp42''"
    by code_simp
  have 5: "Write_fails ?e \<noteq> None \<or> Body_fails ?r" by simp
  from failed_copy_leaves_no_file[OF 1 2 3 4, of example_date False] b2 5
  show ?thesis by (simp add: example_state_def)
qed

lemma stores_Get [simp]: "stores (map EvGet reqs @ evs) = stores evs"
  by (induction reqs) auto

lemma stores_after_Get [simp]:
  "stores_after b url out (map EvGet reqs @ evs) = stores_after b url out evs"
  by (induction reqs) auto

lemma no_set_stores:
  "\<forall>u m. EvSet u m \<notin> set evs \<Longrightarrow> stores evs = [] \<and> stores_after b url out evs"
proof (induction evs arbitrary: b)
  case Nil
  show ?case by simp
next
  case (Cons ev evs)
  then show ?case by (cases ev) auto
qed

lemma no_chtimes: "\<forall>a t. EvChtimes a t \<notin> set evs \<Longrightarrow> chtimes evs = []"
proof (induction evs)
  case Nil
  show ?case by simp
next
  case (Cons ev evs)
  then show ?case by (cases ev) auto
qed

lemma stores_stored_events [simp]:
  "stores (stored_events e reqs tmp out url resp m) = [(url, m)]"
  "stores_after False url out (stored_events e reqs tmp out url resp m)"
  by (simp_all add: stored_events_def split: option.splits)

lemma butlast_stored_events:
  "butlast (stored_events e reqs tmp out url resp m) =
     map EvGet reqs @ [EvCreateTemp tmp, EvCopy tmp, EvRename tmp out] @
     (case mtime_hint e resp of None \<Rightarrow> [] | Some t \<Rightarrow> [EvChtimes out t])"
  by (simp add: stored_events_def butlast_append split: option.splits)

lemma stores_butlast_stored_events [simp]:
  "stores (butlast (stored_events e reqs tmp out url resp m)) = []"
  "stores_after False url out (butlast (stored_events e reqs tmp out url resp m))"
  by (simp_all add: butlast_stored_events split: option.splits)

lemma chtimes_Get [simp]: "chtimes (map EvGet reqs @ evs) = chtimes evs"
  by (induction reqs) auto


lemma fetchOne_stores:
  fixes e dir url d s
  defines "r \<equiv> fetchOne e dir url (Format_date d) s"
  shows "stores_after False url (outPath dir url (Format_date d)) (new_events s (snd r))"
    and "metadata (snd r) = apply_stores (metadata s) (stores (new_events s (snd r)))"
    and "fst r \<noteq> None \<Longrightarrow> stores (new_events s (snd r)) = []"
    and "\<not> NewRequest_fails e \<Longrightarrow>
         Do_result e 0 (request_for (Metadata_get (metadata s) url) url) = Some resp \<Longrightarrow>
         StatusCode resp = 304 \<Longrightarrow> stores (new_events s (snd r)) = []"
proof -
  let ?meta = "Metadata_get (metadata s) url"
  have today: "CHR ''/'' \<notin> set (Format_date d)" by (rule Format_date_no_sep)
  have "stores_after False url (outPath dir url (Format_date d)) (new_events s (snd r)) \<and>
        metadata (snd r) = apply_stores (metadata s) (stores (new_events s (snd r))) \<and>
        (fst r \<noteq> None \<longrightarrow> stores (new_events s (snd r)) = []) \<and>
        (\<not> NewRequest_fails e \<longrightarrow>
         Do_result e 0 (request_for ?meta url) = Some resp \<longrightarrow>
         StatusCode resp = 304 \<longrightarrow> stores (new_events s (snd r)) = [])"
    using today
  proof (cases rule: fetchOne_body_cases[where e=e and dir=dir and url=url and meta="?meta" and s=s])
    case (failed err evs)
    from no_set_stores[OF failed(2)] failed(1) show ?thesis
      by (simp add: r_def fetchOne_def apply_stores_def)
  next
    case (unchanged resp')
    then show ?thesis by (simp add: r_def fetchOne_def apply_stores_def)
  next
    case (stored resp' tmp)
    then show ?thesis by (auto simp: r_def fetchOne_def apply_stores_def)
  qed
  then show "stores_after False url (outPath dir url (Format_date d)) (new_events s (snd r))"
    and "metadata (snd r) = apply_stores (metadata s) (stores (new_events s (snd r)))"
    and "fst r \<noteq> None \<Longrightarrow> stores (new_events s (snd r)) = []"
    and "\<not> NewRequest_fails e \<Longrightarrow>
         Do_result e 0 (request_for (Metadata_get (metadata s) url) url) = Some resp \<Longrightarrow>
         StatusCode resp = 304 \<Longrightarrow> stores (new_events s (snd r)) = []"
    by simp_all
qed

lemma new_events_files [simp]:
  "new_events s (s'\<lparr>files := f, trace := trace s @ evs\<rparr>) = evs"
  by (simp add: new_events_def)

lemma main_loop_body_stores_log:
  fixes e dir url d s h
  defines "r \<equiv> main_loop_body e dir url (Format_date d) (h, s)"
  shows "stores_after False url (outPath dir url (Format_date d)) (new_events s (snd r))"
    and "metadata (snd r) = apply_stores (metadata s) (stores (new_events s (snd r)))"
    and "fst r \<noteq> h \<Longrightarrow> stores (new_events s (snd r)) = []"
    and "\<not> NewRequest_fails e \<Longrightarrow>
         Do_result e 0 (request_for (Metadata_get (metadata s) url) url) = Some resp \<Longrightarrow>
         StatusCode resp = 304 \<Longrightarrow> stores (new_events s (snd r)) = []"
proof -
  let ?meta = "Metadata_get (metadata s) url"
  have today: "CHR ''/'' \<notin> set (Format_date d)" by (rule Format_date_no_sep)
  have "stores_after False url (outPath dir url (Format_date d)) (new_events s (snd r)) \<and>
        metadata (snd r) = apply_stores (metadata s) (stores (new_events s (snd r))) \<and>
        (fst r \<noteq> h \<longrightarrow> stores (new_events s (snd r)) = []) \<and>
        (\<not> NewRequest_fails e \<longrightarrow>
         Do_result e 0 (request_for ?meta url) = Some resp \<longrightarrow>
         StatusCode resp = 304 \<longrightarrow> stores (new_events s (snd r)) = [])"
    using today refl[of ?meta]
  proof (cases rule: main_loop_body_cases[where e=e and dir=dir and url=url and s=s and h=h
        and meta="?meta"])
    case (failed evs f')
    have ev: "new_events s (snd r) = evs" and md: "metadata (snd r) = metadata s"
      using failed(1) by (simp_all add: r_def)
    from no_set_stores[OF failed(2)] show ?thesis
      unfolding ev md by (simp add: apply_stores_def)
  next
    case (unchanged resp')
    then show ?thesis by (simp add: r_def apply_stores_def)
  next
    case (stored resp0 resp' tmp)
    then show ?thesis by (auto simp: r_def apply_stores_def)
  qed
  then show "stores_after False url (outPath dir url (Format_date d)) (new_events s (snd r))"
    and "metadata (snd r) = apply_stores (metadata s) (stores (new_events s (snd r)))"
    and "fst r \<noteq> h \<Longrightarrow> stores (new_events s (snd r)) = []"
    and "\<not> NewRequest_fails e \<Longrightarrow>
         Do_result e 0 (request_for (Metadata_get (metadata s) url) url) = Some resp \<Longrightarrow>
         StatusCode resp = 304 \<Longrightarrow> stores (new_events s (snd r)) = []"
    by simp_all
qed

text \<open>C5. In the events of a task, every write to the metadata map is for the URL of the
  task and comes after the rename of the downloaded file onto the destination path of that
  URL, which is logged only when it succeeds; the map after the task is the map before it
  with these writes applied, so nothing else changes an entry. A task that reports an error
  writes nothing, and a task whose request is answered with status 304 writes nothing. For
  \<^verbatim>\<open>fetchOne\<close> and for the loop of \<^verbatim>\<open>main.go\<close>, which reports an error by setting its
  flag.\<close>

theorem store_written_only_after_rename:
  "stores_after False url (outPath dir url (Format_date d))
     (new_events s (snd (fetchOne e dir url (Format_date d) s))) \<and>
   metadata (snd (fetchOne e dir url (Format_date d) s)) =
     apply_stores (metadata s) (stores (new_events s (snd (fetchOne e dir url (Format_date d) s)))) \<and>
   (fst (fetchOne e dir url (Format_date d) s) \<noteq> None \<longrightarrow>
      stores (new_events s (snd (fetchOne e dir url (Format_date d) s))) = []) \<and>
   (\<forall>resp. \<not> NewRequest_fails e \<and>
      Do_result e 0 (request_for (Metadata_get (metadata s) url) url) = Some resp \<and>
      StatusCode resp = 304 \<longrightarrow>
      stores (new_events s (snd (fetchOne e dir url (Format_date d) s))) = [] \<and>
      stores (new_events s (snd (main_loop_body e dir url (Format_date d) (h, s)))) = []) \<and>
   stores_after False url (outPath dir url (Format_date d))
     (new_events s (snd (main_loop_body e dir url (Format_date d) (h, s)))) \<and>
   metadata (snd (main_loop_body e dir url (Format_date d) (h, s))) =
     apply_stores (metadata s)
       (stores (new_events s (snd (main_loop_body e dir url (Format_date d) (h, s))))) \<and>
   (fst (main_loop_body e dir url (Format_date d) (False, s)) \<longrightarrow>
      stores (new_events s (snd (main_loop_body e dir url (Format_date d) (False, s)))) = [])"
proof (intro conjI allI impI)
  show "stores_after False url (outPath dir url (Format_date d))
     (new_events s (snd (fetchOne e dir url (Format_date d) s)))"
    by (rule fetchOne_stores(1))
  show "metadata (snd (fetchOne e dir url (Format_date d) s)) =
     apply_stores (metadata s) (stores (new_events s (snd (fetchOne e dir url (Format_date d) s))))"
    by (rule fetchOne_stores(2))
  show "stores (new_events s (snd (fetchOne e dir url (Format_date d) s))) = []"
    if "fst (fetchOne e dir url (Format_date d) s) \<noteq> None"
    using that by (rule fetchOne_stores(3))
  show "stores_after False url (outPath dir url (Format_date d))
     (new_events s (snd (main_loop_body e dir url (Format_date d) (h, s))))"
    by (rule main_loop_body_stores_log(1))
  show "metadata (snd (main_loop_body e dir url (Format_date d) (h, s))) =
     apply_stores (metadata s)
       (stores (new_events s (snd (main_loop_body e dir url (Format_date d) (h, s)))))"
    by (rule main_loop_body_stores_log(2))
  show "stores (new_events s (snd (main_loop_body e dir url (Format_date d) (False, s)))) = []"
    if "fst (main_loop_body e dir url (Format_date d) (False, s))"
    using that by (intro main_loop_body_stores_log(3)) simp
next
  fix resp
  assume a: "\<not> NewRequest_fails e \<and>
      Do_result e 0 (request_for (Metadata_get (metadata s) url) url) = Some resp \<and>
      StatusCode resp = 304"
  show "stores (new_events s (snd (fetchOne e dir url (Format_date d) s))) = []"
    using a by (intro fetchOne_stores(4)[where resp=resp]) simp_all
  show "stores (new_events s (snd (main_loop_body e dir url (Format_date d) (h, s)))) = []"
    using a by (intro main_loop_body_stores_log(4)[where resp=resp]) simp_all
qed

text \<open>Instances of C5: responses with status 304 and 500 write nothing; a response with
  status 200 is stored after the rename.\<close>

theorem store_witness:
  "stores (new_events example_state
     (snd (fetchOne (example_env (example_response 304 [])) ''stationA'' example_url
            (Format_date example_date) example_state))) = [] \<and>
   stores (new_events example_state
     (snd (main_loop_body (example_env (example_response 304 [])) ''stationA'' example_url
            (Format_date example_date) (False, example_state)))) = [] \<and>
   stores (new_events example_state
     (snd (fetchOne (example_env (example_response 500 [])) ''stationA'' example_url
            (Format_date example_date) example_state))) = [] \<and>
   stores (new_events example_state
     (snd (main_loop_body (example_env (example_response 500 [])) ''stationA'' example_url
            (Format_date example_date) (False, example_state)))) = [] \<and>
   stores_after False example_url (outPath ''stationA'' example_url (Format_date example_date))
     (new_events example_state
       (snd (fetchOne (example_env (example_response 200 [])) ''stationA'' example_url
              (Format_date example_date) example_state)))"
proof -
  let ?q = "request_for (Metadata_get (metadata example_state) example_url) example_url"
  have a: "\<not> NewRequest_fails (example_env (example_response 304 [])) \<and>
           Do_result (example_env (example_response 304 [])) 0 ?q = Some (example_response 304 []) \<and>
           StatusCode (example_response 304 []) = 304"
    by (simp add: example_env_def example_response_def)
  have b: "fst (fetchOne (example_env (example_response 500 [])) ''stationA'' example_url
            (Format_date example_date) example_state) \<noteq> None"
    by code_simp
  have c: "fst (main_loop_body (example_env (example_response 500 [])) ''stationA'' example_url
            (Format_date example_date) (False, example_state))"
    by code_simp
  from store_written_only_after_rename[of example_url "''stationA''" example_date example_state
      "example_env (example_response 304 [])" False] a
  have 1: "stores (new_events example_state
     (snd (fetchOne (example_env (example_response 304 [])) ''stationA'' example_url
            (Format_date example_date) example_state))) = [] \<and>
   stores (new_events example_state
     (snd (main_loop_body (example_env (example_response 304 [])) ''stationA'' example_url
            (Format_date example_date) (False, example_state)))) = []"
    by blast
  from store_written_only_after_rename[of example_url "''stationA''" example_date example_state
      "example_env (example_response 500 [])" False] b c
  have 2: "stores (new_events example_state
     (snd (fetchOne (example_env (example_response 500 [])) ''stationA'' example_url
            (Format_date example_date) example_state))) = [] \<and>
   stores (new_events example_state
     (snd (main_loop_body (example_env (example_response 500 [])) ''stationA'' example_url
            (Format_date example_date) (False, example_state)))) = []"
    by blast
  from store_written_only_after_rename[of example_url "''stationA''" example_date example_state
      "example_env (example_response 200 [])" False]
  have 3: "stores_after False example_url (outPath ''stationA'' example_url (Format_date example_date))
     (new_events example_state
       (snd (fetchOne (example_env (example_response 200 [])) ''stationA'' example_url
              (Format_date example_date) example_state)))"
    by blast
  from 1 2 3 show ?thesis by blast
qed



























lemma decode_encode_entry: "decode_entry (encode_entry m) = Some m"
  by (cases "LastModified m = []"; cases "ETag m = []")
     (simp_all add: decode_entry_def encode_entry_def decode_field_def)

lemma decode_encode_Metadata: "decode_Metadata (encode_Metadata m) = Some (False, m)"
proof -
  have p: "fmpred (\<lambda>k v. decode_entry v \<noteq> None) (fmmap encode_entry m)"
    by (auto simp: fmpred_iff decode_encode_entry)
  have "fmmap (\<lambda>v. the (decode_entry v)) (fmmap encode_entry m) = m"
    by (rule fmap_ext) (simp add: decode_encode_entry option.map_comp comp_def option.map_ident)
  with p show ?thesis by (simp add: decode_Metadata_def encode_Metadata_def)
qed

text \<open>C9. Decoding the document that the encoder makes of a metadata map gives a map that
  is not nil and has the same entries, whatever fields of the entries are empty. When no
  call on the file fails, \<^verbatim>\<open>writeMetadata\<close> returns and leaves that document in the metadata
  file, and \<^verbatim>\<open>readMetadata\<close> then returns the same entries.\<close>

theorem persist_then_load:
  "decode_Metadata (encode_Metadata m) = Some (False, m) \<and>
   (\<not> Create_fails R \<and> \<not> Encode_fails R \<and> \<not> Rename_metadata_fails R \<and> \<not> Open_fails R' \<longrightarrow>
      fst (writeMetadata R m d) \<and>
      snd (writeMetadata R m d) metadataFile = Some (Document (encode_Metadata m)) \<and>
      readMetadata R' (snd (writeMetadata R m d)) = Some (False, m))"
  by (simp add: decode_encode_Metadata writeMetadata_def readMetadata_def Let_def)

text \<open>Instances of C9: a map with every mix of empty and present fields, and the empty
  map.\<close>

theorem persist_then_load_witness:
  "readMetadata (example_run [] (example_response 304 []))
     (snd (writeMetadata (example_run [] (example_response 304 [])) example_metadata Map.empty))
     = Some (False, example_metadata) \<and>
   readMetadata (example_run [] (example_response 304 []))
     (snd (writeMetadata (example_run [] (example_response 304 [])) fmempty Map.empty))
     = Some (False, fmempty)"
proof -
  let ?R = "example_run [] (example_response 304 [])"
  have h: "\<not> Create_fails ?R \<and> \<not> Encode_fails ?R \<and> \<not> Rename_metadata_fails ?R \<and> \<not> Open_fails ?R"
    by (simp add: example_run_def)
  from persist_then_load[of example_metadata ?R ?R Map.empty]
       persist_then_load[of fmempty ?R ?R Map.empty] h
  show ?thesis by blast
qed

end
